theory Spec2Isabelle
  imports Complex_Main "HOL-Library.Word"
begin

section \<open>Data model of SceneManager.cpp\<close>

text \<open>
  The scene manager of the graphics engine (Source/SceneManager.cpp). C++ \<open>float\<close> is
  modelled by \<open>real\<close>, except in the computation of the flame colour, where it is
  \<open>float32\<close> below; \<open>int\<close> is \<open>int\<close>, \<open>GLuint\<close> is \<open>32 word\<close>, \<open>std::string\<close> is
  \<open>string\<close>. The header SceneManager.h is not part of the sources, so the members of the
  two structs are the ones SceneManager.cpp reads and writes. Calls into the libraries the
  file uses (OpenGL, the shader manager, the mesh library, stb_image) are recorded, in
  program order, in the field \<open>trace\<close> of the state; undefined behaviour of C++ (a call
  through the null shader-manager pointer, an access past the 16 texture slots) is the
  result \<open>None\<close>.
\<close>

datatype vec2 = vec2 (v2x: real) (v2y: real)
datatype vec3 = vec3 (v3x: real) (v3y: real) (v3z: real)
datatype vec4 = vec4 (v4x: real) (v4y: real) (v4z: real) (v4w: real)

text \<open>A \<open>glm::mat4\<close> is column-major: four columns, each a \<open>vec4\<close>.\<close>

datatype mat4 = mat4 (col0: vec4) (col1: vec4) (col2: vec4) (col3: vec4)

text \<open>
  SetupSceneLights computes the flame colour in \<open>float\<close> from the clock, and stores it in
  a \<open>glm::vec3\<close>. There the model keeps what \<open>float\<close> has beyond the real numbers: the
  result of an operation beyond the largest \<open>float\<close> is an infinity, and an operation
  that has no value (the sine of an infinity, an infinity minus an infinity, zero times an
  infinity) gives NaN, which every comparison answers with false. Rounding is left out: a
  result within the range is the exact one, and zero has no sign.
\<close>

datatype float32 = Finite real | PlusInfinity | MinusInfinity | NaN

datatype fvec3 = fvec3 (f3x: float32) (f3y: float32) (f3z: float32)

definition FLT_MAX :: real where
  "FLT_MAX = 340282346638528859811704183484516925440"

definition to_float32 :: "real \<Rightarrow> float32" where
  "to_float32 x =
     (if FLT_MAX < x then PlusInfinity else if x < - FLT_MAX then MinusInfinity else Finite x)"

fun float_mult :: "float32 \<Rightarrow> float32 \<Rightarrow> float32" where
  "float_mult NaN b = NaN"
| "float_mult a NaN = NaN"
| "float_mult (Finite x) (Finite y) = to_float32 (x * y)"
| "float_mult (Finite x) PlusInfinity =
     (if x = 0 then NaN else if 0 < x then PlusInfinity else MinusInfinity)"
| "float_mult (Finite x) MinusInfinity =
     (if x = 0 then NaN else if 0 < x then MinusInfinity else PlusInfinity)"
| "float_mult PlusInfinity (Finite y) =
     (if y = 0 then NaN else if 0 < y then PlusInfinity else MinusInfinity)"
| "float_mult MinusInfinity (Finite y) =
     (if y = 0 then NaN else if 0 < y then MinusInfinity else PlusInfinity)"
| "float_mult PlusInfinity PlusInfinity = PlusInfinity"
| "float_mult PlusInfinity MinusInfinity = MinusInfinity"
| "float_mult MinusInfinity PlusInfinity = MinusInfinity"
| "float_mult MinusInfinity MinusInfinity = PlusInfinity"

fun float_add :: "float32 \<Rightarrow> float32 \<Rightarrow> float32" where
  "float_add NaN b = NaN"
| "float_add a NaN = NaN"
| "float_add (Finite x) (Finite y) = to_float32 (x + y)"
| "float_add PlusInfinity MinusInfinity = NaN"
| "float_add MinusInfinity PlusInfinity = NaN"
| "float_add PlusInfinity b = PlusInfinity"
| "float_add MinusInfinity b = MinusInfinity"
| "float_add a PlusInfinity = PlusInfinity"
| "float_add a MinusInfinity = MinusInfinity"

fun float_sin :: "float32 \<Rightarrow> float32" where
  "float_sin (Finite x) = Finite (sin x)"
| "float_sin a = NaN"

fun float_less :: "float32 \<Rightarrow> float32 \<Rightarrow> bool" where
  "float_less NaN b = False"
| "float_less a NaN = False"
| "float_less (Finite x) (Finite y) = (x < y)"
| "float_less a MinusInfinity = False"
| "float_less PlusInfinity b = False"
| "float_less MinusInfinity b = True"
| "float_less a PlusInfinity = True"

text \<open>
  \<open>glm::max\<close>, \<open>glm::min\<close> and \<open>glm::clamp\<close> on \<open>float\<close>, after GLM's implementation:
  \<open>(x < y) ? y : x\<close>, \<open>(y < x) ? y : x\<close> and \<open>min(max(x, minVal), maxVal)\<close>.
\<close>

definition glm_max32 :: "float32 \<Rightarrow> float32 \<Rightarrow> float32" where
  "glm_max32 x y = (if float_less x y then y else x)"

definition glm_min32 :: "float32 \<Rightarrow> float32 \<Rightarrow> float32" where
  "glm_min32 x y = (if float_less y x then y else x)"

definition glm_clamp32 :: "float32 \<Rightarrow> float32 \<Rightarrow> float32 \<Rightarrow> float32" where
  "glm_clamp32 x minVal maxVal = glm_min32 (glm_max32 x minVal) maxVal"


definition finite3 :: "vec3 \<Rightarrow> fvec3" where
  "finite3 v = fvec3 (Finite (v3x v)) (Finite (v3y v)) (Finite (v3z v))"

text \<open>
  The renderers are over the real numbers: of a channel of the flame colour they take the
  number it is, and 0 of a channel that is not a finite number (the code passes such a
  channel on as it is).
\<close>

fun finite_value :: "float32 \<Rightarrow> real" where
  "finite_value (Finite x) = x"
| "finite_value a = 0"

record TEXTURE_INFO =
  tag :: string
  ID :: "32 word"

record OBJECT_MATERIAL =
  diffuseColor :: vec3
  specularColor :: vec3
  shininess :: real
  emissiveColor :: vec3
  mtag :: string

record image =
  width :: int
  height :: int
  colorChannels :: int

datatype ShaderManager_ptr = NULL | ShaderManager

datatype gl_cap = GL_BLEND
datatype gl_factor = GL_SRC_ALPHA | GL_ONE_MINUS_SRC_ALPHA
datatype gl_param = GL_TEXTURE_WRAP_S | GL_TEXTURE_WRAP_T | GL_TEXTURE_MIN_FILTER | GL_TEXTURE_MAG_FILTER
datatype gl_value = GL_REPEAT | GL_LINEAR
datatype gl_format = GL_RGB8 | GL_RGBA8

datatype BoxSide = BoxSide_front | BoxSide_back | BoxSide_left | BoxSide_right | BoxSide_top | BoxSide_bottom

datatype mesh =
    BoxMesh | BoxMeshSide BoxSide | PlaneMesh | CylinderMesh | ConeMesh | Pyramid4Mesh
  | TaperedCylinderMesh | TorusMesh | HalfSphereMesh

text \<open>One constructor for each library call the file makes.\<close>

datatype event =
    setMat4Value string mat4
  | setIntValue string int
  | setBoolValue string bool
  | setFloatValue string real
  | setVec2Value string vec2
  | setVec3Value string fvec3
  | setVec4Value string vec4
  | setSampler2DValue string int
  | glEnable gl_cap
  | glDisable gl_cap
  | glBlendFunc gl_factor gl_factor
  | glGenTextures "32 word"
  | glBindTexture "32 word"
  | glActiveTexture nat
  | glTexParameteri gl_param gl_value
  | glTexImage2D gl_format int int
  | glGenerateMipmap
  | stbi_image_free
  | Draw mesh

text \<open>
  The state: the data members of the class, the file-scope variable \<open>flameColor\<close>, and what
  the code reads from outside: the clock (\<open>glfwGetTime\<close>), the static random generator
  (the stream \<open>generator\<close> of the numbers \<open>distribution(generator)\<close> returns, and how many were
  drawn), the image files (\<open>stbi_load\<close>), the texture names in use in the GL context.
  The clock is the \<open>double\<close> that \<open>glfwGetTime\<close> returns, as a real number.
  \<open>uninitialized\<close> stands for the content of the local \<open>OBJECT_MATERIAL material\<close> of
  SetShaderMaterial, which the code declares without initialising.
\<close>

record world =
  m_pShaderManager :: ShaderManager_ptr
  m_textureIDs :: "TEXTURE_INFO list"
  m_loadedTextures :: int
  m_objectMaterials :: "OBJECT_MATERIAL list"
  flameColor :: fvec3
  glfwGetTime :: real
  generator :: "nat \<Rightarrow> real"
  generator_calls :: nat
  stbi_load :: "string \<Rightarrow> image option"
  gl_texture_names :: "32 word list"
  uninitialized :: OBJECT_MATERIAL
  trace :: "event list"

definition call :: "event \<Rightarrow> world \<Rightarrow> world" where
  "call e w = w\<lparr>trace := trace w @ [e]\<rparr>"

section \<open>Texture registry\<close>

text \<open>The constructor (lines 39-52): the members it assigns, over the surrounding state.\<close>

definition SceneManager :: "ShaderManager_ptr \<Rightarrow> world \<Rightarrow> world" where
  "SceneManager pShaderManager w =
     w\<lparr>m_pShaderManager := pShaderManager,
       m_textureIDs := replicate 16 \<lparr>tag = ''/0'', ID = - 1\<rparr>,
       m_loadedTextures := 0,
       m_objectMaterials := []\<rparr>"

text \<open>
  \<open>glGenTextures(1, &id)\<close> of OpenGL: a texture name that is not in use is returned and is
  in use from then on. The model takes the successor of the largest name in use.
\<close>

definition unused_name :: "32 word list \<Rightarrow> 32 word" where
  "unused_name names = fold max names 0 + 1"

definition gen_texture :: "world \<Rightarrow> 32 word \<times> world" where
  "gen_texture w =
     (let n = unused_name (gl_texture_names w)
      in (n, call (glGenTextures n) (w\<lparr>gl_texture_names := gl_texture_names w @ [n]\<rparr>)))"

text \<open>
  CreateGLTexture (lines 81-145). The result is the returned flag and the state; the
  messages printed on \<open>std::cout\<close> are left out. Registering into a slot past the array is
  \<open>None\<close>.
\<close>

definition CreateGLTexture :: "string \<Rightarrow> string \<Rightarrow> world \<Rightarrow> (bool \<times> world) option" where
  "CreateGLTexture filename tg w =
     (case stbi_load w filename of
        Some img \<Rightarrow>
          (let (textureID, w) = gen_texture w;
               w = call (glBindTexture textureID) w;
               w = call (glTexParameteri GL_TEXTURE_WRAP_S GL_REPEAT) w;
               w = call (glTexParameteri GL_TEXTURE_WRAP_T GL_REPEAT) w;
               w = call (glTexParameteri GL_TEXTURE_MIN_FILTER GL_LINEAR) w;
               w = call (glTexParameteri GL_TEXTURE_MAG_FILTER GL_LINEAR) w
           in if colorChannels img = 3 \<or> colorChannels img = 4 then
                (let w = (if colorChannels img = 3
                          then call (glTexImage2D GL_RGB8 (width img) (height img)) w
                          else call (glTexImage2D GL_RGBA8 (width img) (height img)) w);
                     w = call glGenerateMipmap w;
                     w = call stbi_image_free w;
                     w = call (glBindTexture 0) w
                 in if 0 \<le> m_loadedTextures w \<and> nat (m_loadedTextures w) < length (m_textureIDs w)
                    then Some (True,
                      w\<lparr>m_textureIDs := (m_textureIDs w)
                            [nat (m_loadedTextures w) := \<lparr>tag = tg, ID = textureID\<rparr>],
                        m_loadedTextures := m_loadedTextures w + 1\<rparr>)
                    else None)
              else Some (False, w))
      | None \<Rightarrow> Some (False, w))"

text \<open>BindGLTextures (lines 153-161).\<close>

function BindGLTextures_loop :: "int \<Rightarrow> world \<Rightarrow> world option" where
  "BindGLTextures_loop i w =
     (if i < m_loadedTextures w then
        (if 0 \<le> i \<and> nat i < length (m_textureIDs w)
         then BindGLTextures_loop (i + 1)
                (call (glBindTexture (ID (m_textureIDs w ! nat i))) (call (glActiveTexture (nat i)) w))
         else None)
      else Some w)"
  by pat_completeness auto
termination
  by (relation "measure (\<lambda>(i, w). nat (m_loadedTextures w - i))") (auto simp: call_def)

declare BindGLTextures_loop.simps [simp del]

definition BindGLTextures :: "world \<Rightarrow> world option" where
  "BindGLTextures w = BindGLTextures_loop 0 w"

text \<open>
  DestroyGLTextures (lines 169-175): the loop calls \<open>glGenTextures\<close> on the handle of every
  loaded slot, which stores a newly generated name there.
\<close>

function DestroyGLTextures_loop :: "int \<Rightarrow> world \<Rightarrow> world option" where
  "DestroyGLTextures_loop i w =
     (if i < m_loadedTextures w then
        (if 0 \<le> i \<and> nat i < length (m_textureIDs w)
         then (let (n, w') = gen_texture w
               in DestroyGLTextures_loop (i + 1)
                    (w'\<lparr>m_textureIDs := (m_textureIDs w')[nat i := (m_textureIDs w' ! nat i)\<lparr>ID := n\<rparr>]\<rparr>))
         else None)
      else Some w)"
  by pat_completeness auto
termination
  by (relation "measure (\<lambda>(i, w). nat (m_loadedTextures w - i))")
     (auto simp: gen_texture_def call_def Let_def)

declare DestroyGLTextures_loop.simps [simp del]

definition DestroyGLTextures :: "world \<Rightarrow> world option" where
  "DestroyGLTextures w = DestroyGLTextures_loop 0 w"

text \<open>
  FindTextureID and FindTextureSlot (lines 183-227). The loops read the members
  \<open>m_textureIDs\<close> and \<open>m_loadedTextures\<close>; their state is the triple of the locals (result,
  index, bFound); the result of FindTextureID is the handle converted to \<open>int\<close>.
\<close>

function FindTextureID_loop ::
  "TEXTURE_INFO list \<Rightarrow> int \<Rightarrow> string \<Rightarrow> int \<times> int \<times> bool \<Rightarrow> int option" where
  "FindTextureID_loop textureIDs loadedTextures tg (textureID, index, bFound) =
     (if index < loadedTextures \<and> bFound = False then
        (if 0 \<le> index \<and> nat index < length textureIDs then
           (if tag (textureIDs ! nat index) = tg
            then FindTextureID_loop textureIDs loadedTextures tg
                   (sint (ID (textureIDs ! nat index)), index, True)
            else FindTextureID_loop textureIDs loadedTextures tg (textureID, index + 1, bFound))
         else None)
      else Some textureID)"
  by pat_completeness auto
termination
  by (relation "measure (\<lambda>(a, n, tg, r, index, bFound).
        2 * nat (n - index) + (if bFound then 0 else 1))") auto

declare FindTextureID_loop.simps [simp del]

definition FindTextureID :: "string \<Rightarrow> world \<Rightarrow> int option" where
  "FindTextureID tg w = FindTextureID_loop (m_textureIDs w) (m_loadedTextures w) tg (- 1, 0, False)"

function FindTextureSlot_loop ::
  "TEXTURE_INFO list \<Rightarrow> int \<Rightarrow> string \<Rightarrow> int \<times> int \<times> bool \<Rightarrow> int option" where
  "FindTextureSlot_loop textureIDs loadedTextures tg (textureSlot, index, bFound) =
     (if index < loadedTextures \<and> bFound = False then
        (if 0 \<le> index \<and> nat index < length textureIDs then
           (if tag (textureIDs ! nat index) = tg
            then FindTextureSlot_loop textureIDs loadedTextures tg (index, index, True)
            else FindTextureSlot_loop textureIDs loadedTextures tg (textureSlot, index + 1, bFound))
         else None)
      else Some textureSlot)"
  by pat_completeness auto
termination
  by (relation "measure (\<lambda>(a, n, tg, r, index, bFound).
        2 * nat (n - index) + (if bFound then 0 else 1))") auto

declare FindTextureSlot_loop.simps [simp del]

definition FindTextureSlot :: "string \<Rightarrow> world \<Rightarrow> int option" where
  "FindTextureSlot tg w = FindTextureSlot_loop (m_textureIDs w) (m_loadedTextures w) tg (- 1, 0, False)"

section \<open>Material registry\<close>

text \<open>
  FindMaterial (lines 235-260). The reference parameter \<open>material\<close> is passed in and
  returned; the loop state is (index, bFound, material).
\<close>

function FindMaterial_loop ::
  "OBJECT_MATERIAL list \<Rightarrow> string \<Rightarrow> nat \<times> bool \<times> OBJECT_MATERIAL \<Rightarrow> bool \<times> OBJECT_MATERIAL" where
  "FindMaterial_loop ms tg (index, bFound, material) =
     (if index < length ms \<and> bFound = False then
        (if mtag (ms ! index) = tg
         then FindMaterial_loop ms tg (index, True,
                material\<lparr>diffuseColor := diffuseColor (ms ! index),
                         specularColor := specularColor (ms ! index),
                         shininess := shininess (ms ! index)\<rparr>)
         else FindMaterial_loop ms tg (index + 1, bFound, material))
      else (True, material))"
  by pat_completeness auto
termination
  by (relation "measure (\<lambda>(ms, tg, index, bFound, m).
        2 * (length ms - index) + (if bFound then 0 else 1))") auto

declare FindMaterial_loop.simps [simp del]

definition FindMaterial :: "string \<Rightarrow> OBJECT_MATERIAL \<Rightarrow> world \<Rightarrow> bool \<times> OBJECT_MATERIAL" where
  "FindMaterial tg material w =
     (if length (m_objectMaterials w) = 0 then (False, material)
      else FindMaterial_loop (m_objectMaterials w) tg (0, False, material))"

section \<open>Transform builder\<close>

text \<open>
  The functions of the GLM library the file calls, after GLM's implementation
  (\<open>glm::mat4\<close> product, \<open>radians\<close>, \<open>normalize\<close>, and \<open>scale\<close>, \<open>rotate\<close>, \<open>translate\<close> of
  gtx/transform.hpp, which apply the three-argument versions to the identity matrix).
  \<open>glm::radians\<close> multiplies by the \<open>float\<close> nearest to \<open>pi / 180\<close>; over \<open>real\<close> it is that
  number.
\<close>

definition smul3 :: "vec3 \<Rightarrow> real \<Rightarrow> vec3" where
  "smul3 v s = vec3 (v3x v * s) (v3y v * s) (v3z v * s)"

definition smul4 :: "vec4 \<Rightarrow> real \<Rightarrow> vec4" where
  "smul4 v s = vec4 (v4x v * s) (v4y v * s) (v4z v * s) (v4w v * s)"

definition add4 :: "vec4 \<Rightarrow> vec4 \<Rightarrow> vec4" where
  "add4 a b = vec4 (v4x a + v4x b) (v4y a + v4y b) (v4z a + v4z b) (v4w a + v4w b)"

definition mat4_identity :: mat4 where
  "mat4_identity = mat4 (vec4 1 0 0 0) (vec4 0 1 0 0) (vec4 0 0 1 0) (vec4 0 0 0 1)"

definition mat4_times_vec4 :: "mat4 \<Rightarrow> vec4 \<Rightarrow> vec4" where
  "mat4_times_vec4 m v =
     add4 (add4 (add4 (smul4 (col0 m) (v4x v)) (smul4 (col1 m) (v4y v)))
                (smul4 (col2 m) (v4z v))) (smul4 (col3 m) (v4w v))"

definition mat4_times :: "mat4 \<Rightarrow> mat4 \<Rightarrow> mat4" where
  "mat4_times m1 m2 =
     mat4 (mat4_times_vec4 m1 (col0 m2)) (mat4_times_vec4 m1 (col1 m2))
          (mat4_times_vec4 m1 (col2 m2)) (mat4_times_vec4 m1 (col3 m2))"

definition glm_radians :: "real \<Rightarrow> real" where
  "glm_radians degrees = degrees * (pi / 180)"

definition glm_normalize :: "vec3 \<Rightarrow> vec3" where
  "glm_normalize v = smul3 v (1 / sqrt (v3x v * v3x v + v3y v * v3y v + v3z v * v3z v))"

definition glm_scale :: "vec3 \<Rightarrow> mat4" where
  "glm_scale v =
     (let m = mat4_identity
      in mat4 (smul4 (col0 m) (v3x v)) (smul4 (col1 m) (v3y v)) (smul4 (col2 m) (v3z v)) (col3 m))"

definition glm_translate :: "vec3 \<Rightarrow> mat4" where
  "glm_translate v =
     (let m = mat4_identity
      in mat4 (col0 m) (col1 m) (col2 m)
           (add4 (add4 (add4 (smul4 (col0 m) (v3x v)) (smul4 (col1 m) (v3y v)))
                       (smul4 (col2 m) (v3z v))) (col3 m)))"

definition glm_rotate :: "real \<Rightarrow> vec3 \<Rightarrow> mat4" where
  "glm_rotate angle v =
     (let m = mat4_identity;
          c = cos angle;
          s = sin angle;
          axis = glm_normalize v;
          temp = smul3 axis (1 - c);
          r00 = c + v3x temp * v3x axis;
          r01 = v3x temp * v3y axis + s * v3z axis;
          r02 = v3x temp * v3z axis - s * v3y axis;
          r10 = v3y temp * v3x axis - s * v3z axis;
          r11 = c + v3y temp * v3y axis;
          r12 = v3y temp * v3z axis + s * v3x axis;
          r20 = v3z temp * v3x axis + s * v3y axis;
          r21 = v3z temp * v3y axis - s * v3x axis;
          r22 = c + v3z temp * v3z axis
      in mat4 (add4 (add4 (smul4 (col0 m) r00) (smul4 (col1 m) r01)) (smul4 (col2 m) r02))
              (add4 (add4 (smul4 (col0 m) r10) (smul4 (col1 m) r11)) (smul4 (col2 m) r12))
              (add4 (add4 (smul4 (col0 m) r20) (smul4 (col1 m) r21)) (smul4 (col2 m) r22))
              (col3 m))"

definition glm_clamp :: "real \<Rightarrow> real \<Rightarrow> real \<Rightarrow> real" where
  "glm_clamp x minVal maxVal = min (max x minVal) maxVal"

text \<open>The names of the uniforms (lines 25-29).\<close>

definition g_ModelName :: string where "g_ModelName = ''model''"
definition g_ColorValueName :: string where "g_ColorValueName = ''objectColor''"
definition g_TextureValueName :: string where "g_TextureValueName = ''objectTexture''"
definition g_UseTextureName :: string where "g_UseTextureName = ''bUseTexture''"

text \<open>SetTransformations (lines 268-298): the matrix it computes, and the call.\<close>

definition modelView :: "vec3 \<Rightarrow> real \<Rightarrow> real \<Rightarrow> real \<Rightarrow> vec3 \<Rightarrow> mat4" where
  "modelView scaleXYZ XrotationDegrees YrotationDegrees ZrotationDegrees positionXYZ =
     (let scale = glm_scale scaleXYZ;
          rotationX = glm_rotate (glm_radians XrotationDegrees) (vec3 1 0 0);
          rotationY = glm_rotate (glm_radians YrotationDegrees) (vec3 0 1 0);
          rotationZ = glm_rotate (glm_radians ZrotationDegrees) (vec3 0 0 1);
          translation = glm_translate positionXYZ
      in mat4_times (mat4_times (mat4_times (mat4_times translation rotationZ) rotationY)
                      rotationX) scale)"

definition SetTransformations :: "vec3 \<Rightarrow> real \<Rightarrow> real \<Rightarrow> real \<Rightarrow> vec3 \<Rightarrow> world \<Rightarrow> world" where
  "SetTransformations scaleXYZ XrotationDegrees YrotationDegrees ZrotationDegrees positionXYZ w =
     (if m_pShaderManager w \<noteq> NULL
      then call (setMat4Value g_ModelName
             (modelView scaleXYZ XrotationDegrees YrotationDegrees ZrotationDegrees positionXYZ)) w
      else w)"

section \<open>Uniform dispatch\<close>

text \<open>SetShaderColor (lines 306-325); \<open>false\<close> is passed to \<open>setIntValue\<close> as 0.\<close>

definition SetShaderColor :: "real \<Rightarrow> real \<Rightarrow> real \<Rightarrow> real \<Rightarrow> world \<Rightarrow> world" where
  "SetShaderColor redColorValue greenColorValue blueColorValue alphaValue w =
     (let currentColor = vec4 redColorValue greenColorValue blueColorValue alphaValue
      in if m_pShaderManager w \<noteq> NULL
         then call (setVec4Value g_ColorValueName currentColor)
                (call (setIntValue g_UseTextureName 0) w)
         else w)"

text \<open>SetShaderTexture (lines 333-344); \<open>true\<close> is passed to \<open>setIntValue\<close> as 1.\<close>

definition SetShaderTexture :: "string \<Rightarrow> world \<Rightarrow> world option" where
  "SetShaderTexture textureTag w =
     (if m_pShaderManager w \<noteq> NULL
      then (let w = call (setIntValue g_UseTextureName 1) w
            in case FindTextureSlot textureTag w of
                 None \<Rightarrow> None
               | Some textureID \<Rightarrow> Some (call (setSampler2DValue g_TextureValueName textureID) w))
      else Some w)"

text \<open>SetTextureUVScale (lines 352-358).\<close>

definition SetTextureUVScale :: "real \<Rightarrow> real \<Rightarrow> world \<Rightarrow> world" where
  "SetTextureUVScale u v w =
     (if m_pShaderManager w \<noteq> NULL then call (setVec2Value ''UVscale'' (vec2 u v)) w else w)"

text \<open>
  SetShaderMaterial (lines 366-382). The shader manager is called here without a test
  of the pointer.
\<close>

definition SetShaderMaterial :: "string \<Rightarrow> world \<Rightarrow> world option" where
  "SetShaderMaterial materialTag w =
     (if length (m_objectMaterials w) > 0 then
        (let (bReturn, material) = FindMaterial materialTag (uninitialized w) w
         in if bReturn = True then
              (if m_pShaderManager w = NULL then None
               else Some (call (setFloatValue ''material.shininess'' (shininess material))
                            (call (setVec3Value ''material.specularColor'' (finite3 (specularColor material)))
                               (call (setVec3Value ''material.diffuseColor'' (finite3 (diffuseColor material))) w))))
            else Some w)
      else Some w)"

section \<open>Lighting setup\<close>



section \<open>Object renderers\<close>

text \<open>
  A renderer is a sequence of statements, each a function from the state to the state, or
  to \<open>None\<close> when it fails; \<open>seq\<close> runs them in order and stops at the first failure,
  \<open>does\<close> makes a statement of a call that cannot fail.
\<close>

type_synonym stmt = "world \<Rightarrow> world option"

fun seq :: "stmt list \<Rightarrow> stmt" where
  "seq [] w = Some w"
| "seq (s # ss) w = (case s w of None \<Rightarrow> None | Some w' \<Rightarrow> seq ss w')"

definition does :: "(world \<Rightarrow> world) \<Rightarrow> stmt" where
  "does f w = Some (f w)"

definition DrawBoxMesh :: "world \<Rightarrow> world" where "DrawBoxMesh = call (Draw BoxMesh)"
definition DrawBoxMeshSide :: "BoxSide \<Rightarrow> world \<Rightarrow> world" where
  "DrawBoxMeshSide side = call (Draw (BoxMeshSide side))"
definition DrawPlaneMesh :: "world \<Rightarrow> world" where "DrawPlaneMesh = call (Draw PlaneMesh)"
definition DrawCylinderMesh :: "world \<Rightarrow> world" where "DrawCylinderMesh = call (Draw CylinderMesh)"
definition DrawConeMesh :: "world \<Rightarrow> world" where "DrawConeMesh = call (Draw ConeMesh)"
definition DrawPyramid4Mesh :: "world \<Rightarrow> world" where "DrawPyramid4Mesh = call (Draw Pyramid4Mesh)"
definition DrawTaperedCylinderMesh :: "world \<Rightarrow> world" where
  "DrawTaperedCylinderMesh = call (Draw TaperedCylinderMesh)"
definition DrawTorusMesh :: "world \<Rightarrow> world" where "DrawTorusMesh = call (Draw TorusMesh)"
definition DrawHalfSphereMesh :: "world \<Rightarrow> world" where
  "DrawHalfSphereMesh = call (Draw HalfSphereMesh)"

text \<open>RenderTable (lines 636-706).\<close>

definition RenderTable :: stmt where
  "RenderTable = seq [
     does (SetTransformations (vec3 20.0 0.2 15.0) 0.0 0.0 0.0 (vec3 0.0 (- 0.2) (- 0.9))),
     does (SetShaderColor 1 1 1 1),
     SetShaderTexture ''fabric'',
     does (SetTextureUVScale 1.0 1.0),
     SetShaderMaterial ''wood'',
     does DrawBoxMesh,
     does (SetTransformations (vec3 50.0 1.5 15.0) 0.0 0.0 0.0 (vec3 0.0 (- 1.2) (- 0.9))),
     does (SetShaderColor 0.39 0.24 0.12 1.0),
     SetShaderTexture ''wood'',
     SetShaderMaterial ''wood'',
     does DrawBoxMesh]"

text \<open>RenderBackdrop (lines 714-750).\<close>

definition RenderBackdrop :: stmt where
  "RenderBackdrop = seq [
     does (SetTransformations (vec3 20.0 1.0 20.0) 90.0 0.0 0.0 (vec3 0.0 15.0 (- 9.0))),
     SetShaderTexture ''fabric'',
     does (SetTextureUVScale 10.0 10.0),
     SetShaderMaterial ''backdrop'',
     does DrawPlaneMesh]"

text \<open>RenderPotionBottle (lines 758-955).\<close>

definition RenderPotionBottle :: stmt where
  "RenderPotionBottle =
     (let scaleFactor = 0.9;
          liquidScaleFactor = 0.8;
          liquidColor = vec4 0.396 0.694 0.996 0.7
      in seq [
     does (call (glEnable GL_BLEND)),
     does (call (glBlendFunc GL_SRC_ALPHA GL_ONE_MINUS_SRC_ALPHA)),
     does (SetTransformations (smul3 (vec3 2.0 2.8 2.0) liquidScaleFactor) 0.0 15.0 0.0
              (vec3 4.0 (5.5 * liquidScaleFactor) (- 1.0))),
     does (SetShaderColor (v4x liquidColor) (v4y liquidColor) (v4z liquidColor) (v4w liquidColor)),
     SetShaderMaterial ''liquid'',
     does DrawBoxMesh,
     does (SetTransformations (smul3 (vec3 2.0 3.5 2.0) scaleFactor) 0.0 15.0 0.0
              (vec3 4.0 (4.75 * scaleFactor) (- 1.0))),
     does (SetShaderColor 0.196 0.294 0.796 0.65),
     SetShaderMaterial ''glass'',
     does (DrawBoxMeshSide BoxSide_front),
     does (DrawBoxMeshSide BoxSide_back),
     does (DrawBoxMeshSide BoxSide_left),
     does (DrawBoxMeshSide BoxSide_right),
     does (DrawBoxMeshSide BoxSide_bottom),
     does (SetTransformations (smul3 (vec3 2.0 1.5 2.0) scaleFactor) 0.0 15.0 0.0
              (vec3 4.0 (7.25 * scaleFactor) (- 1.0))),
     does (SetShaderColor 0.196 0.294 0.796 0.65),
     SetShaderMaterial ''glass'',
     does DrawPyramid4Mesh,
     does (SetTransformations (smul3 (vec3 0.35 2.2 0.35) scaleFactor) 0.0 15.0 0.0
              (vec3 4.0 (7.0 * scaleFactor) (- 1.0))),
     does (SetShaderColor 0.196 0.294 0.796 0.65),
     SetShaderMaterial ''glass'',
     does DrawCylinderMesh,
     does (SetTransformations (smul3 (vec3 0.42 0.42 0.65) scaleFactor) 90.0 0.0 0.0
              (vec3 4.0 (9.2 * scaleFactor) (- 1.0))),
     does (SetShaderColor 0.196 0.294 0.796 0.65),
     SetShaderMaterial ''glass'',
     does DrawTorusMesh,
     does (SetTransformations (smul3 (vec3 0.45 0.69 0.45) scaleFactor) 180.0 0.0 0.0
              (vec3 4.0 (9.92 * scaleFactor) (- 1.0))),
     SetShaderTexture ''rubber'',
     does (SetTextureUVScale 2.0 2.0),
     SetShaderMaterial ''wood'',
     does DrawTaperedCylinderMesh,
     does (call (glDisable GL_BLEND))])"

text \<open>
  RenderCandle (lines 963-1261). The flame reads the clock and the file-scope
  \<open>flameColor\<close> after its transformation is set.
\<close>

definition RenderCandle :: stmt where
  "RenderCandle = seq [
     does (SetTransformations (vec3 1.5 1.7 1.5) 90.0 0.0 0.0 (vec3 (- 5.0) 0.25 0.9)),
     does (SetShaderColor 0.2 0.2 0.2 1.0),
     SetShaderTexture ''metal'',
     SetShaderMaterial ''metal'',
     does DrawTorusMesh,
     does (SetTransformations (vec3 1.5 2.2 1.5) 0.0 0.0 0.0 (vec3 (- 5.0) 0.3 0.9)),
     does (SetShaderColor 0.2 0.2 0.2 1.0),
     SetShaderTexture ''metal'',
     SetShaderMaterial ''metal'',
     does DrawTaperedCylinderMesh,
     does (SetTransformations (vec3 0.5 0.5 0.5) 0.0 0.0 0.0 (vec3 (- 5.0) 2.5 0.9)),
     does (SetShaderColor 0.2 0.2 0.2 1.0),
     SetShaderTexture ''metal'',
     SetShaderMaterial ''metal'',
     does DrawCylinderMesh,
     does (SetTransformations (vec3 0.58 1.4 0.58) 0.0 90.0 0.0 (vec3 (- 5.0) 3.0 0.9)),
     does (SetShaderColor 0.2 0.2 0.2 1.0),
     SetShaderTexture ''metal'',
     SetShaderMaterial ''metal'',
     does DrawTaperedCylinderMesh,
     does (SetTransformations (vec3 0.62 1.9 0.62) 0.0 0.0 180.0 (vec3 (- 5.0) 5.8 0.9)),
     does (SetShaderColor 0.2 0.2 0.2 1.0),
     SetShaderTexture ''metal'',
     SetShaderMaterial ''metal'',
     does DrawTaperedCylinderMesh,
     does (SetTransformations (vec3 0.7 0.7 0.45) 90.0 0.0 0.0 (vec3 (- 5.0) 5.85 0.9)),
     does (SetShaderColor 0.2 0.2 0.2 1.0),
     SetShaderTexture ''metal'',
     SetShaderMaterial ''metal'',
     does DrawTorusMesh,
     does (SetTransformations (vec3 0.35 2.4 0.35) 0.0 0.0 0.0 (vec3 (- 5.0) 5.8 0.9)),
     does (SetShaderColor 1.0 1.0 1.0 1.0),
     SetShaderTexture ''candle'',
     does (SetTextureUVScale 2.0 1.0),
     SetShaderMaterial ''wood'',
     does DrawCylinderMesh,
     does (SetTransformations (vec3 0.04 0.6 0.04) 0.0 0.0 0.0 (vec3 (- 5.0) 8.0 0.9)),
     does (SetShaderColor 0.1 0.1 0.1 1.0),
     SetShaderTexture ''rubber'',
     SetShaderMaterial ''wood'',
     does DrawConeMesh,
     does (SetTransformations (vec3 0.2 0.8 0.2) 0.0 0.0 0.0 (vec3 (- 5.0) 8.0 0.9)),
     (\<lambda>w. let alpha = sin (glfwGetTime w * 2.5) * 0.2 + 0.6;
              alpha = glm_clamp alpha 0.5 0.8
          in does (SetShaderColor (finite_value (f3x (flameColor w)))
                      (finite_value (f3y (flameColor w))) (finite_value (f3z (flameColor w)))
                      alpha) w),
     SetShaderMaterial ''flame'',
     does (call (glEnable GL_BLEND)),
     does (call (glBlendFunc GL_SRC_ALPHA GL_ONE_MINUS_SRC_ALPHA)),
     does DrawConeMesh,
     does (call (glDisable GL_BLEND))]"

text \<open>RenderBottomBook (lines 1269-1409).\<close>

definition RenderBottomBook :: stmt where
  "RenderBottomBook = seq [
     does (SetTransformations (vec3 4.0 1.4 4.5) 0.0 30.0 0.0 (vec3 4.0 0.75 (- 1.0))),
     does (SetShaderColor 0.659 0.576 0.439 1.0),
     SetShaderTexture ''pages'',
     does (SetTextureUVScale 2.0 0.5),
     SetShaderMaterial ''wood'',
     does (DrawBoxMeshSide BoxSide_front),
     does (DrawBoxMeshSide BoxSide_back),
     does (DrawBoxMeshSide BoxSide_left),
     does (DrawBoxMeshSide BoxSide_right),
     does (SetTransformations (vec3 4.2 0.2 4.7) 0.0 30.0 0.0 (vec3 4.0 0.1 (- 1.0))),
     does (SetShaderColor 0.36 0.25 0.20 1.0),
     SetShaderTexture ''leather'',
     does (SetTextureUVScale 0.5 6.0),
     SetShaderMaterial ''wood'',
     does DrawBoxMesh,
     does (SetTransformations (vec3 4.2 0.2 4.7) 0.0 30.0 0.0 (vec3 4.0 1.5 (- 1.0))),
     does (SetShaderColor 0.36 0.25 0.20 1.0),
     SetShaderTexture ''leather'',
     does (SetTextureUVScale 0.5 6.0),
     SetShaderMaterial ''wood'',
     does DrawBoxMesh,
     does (SetTransformations (vec3 1.6 0.2 4.7) 30.0 0.0 90.0 (vec3 5.8 0.8 (- 2.05))),
     does (SetShaderColor 0.36 0.25 0.20 1.0),
     SetShaderTexture ''leather'',
     does (SetTextureUVScale 0.5 6.0),
     SetShaderMaterial ''wood'',
     does DrawBoxMesh]"

text \<open>RenderTopBook (lines 1417-1562).\<close>

definition RenderTopBook :: stmt where
  "RenderTopBook = seq [
     does (SetTransformations (vec3 4.0 1.5 4.5) 0.0 60.0 0.0 (vec3 4.0 2.35 (- 1.0))),
     SetShaderTexture ''pages'',
     does (SetTextureUVScale 1.0 1.0),
     SetShaderMaterial ''wood'',
     does (DrawBoxMeshSide BoxSide_front),
     does (DrawBoxMeshSide BoxSide_back),
     does (DrawBoxMeshSide BoxSide_left),
     does (DrawBoxMeshSide BoxSide_right),
     does (SetTransformations (vec3 4.2 0.2 4.7) 0.0 60.0 0.0 (vec3 4.0 1.7 (- 1.0))),
     does (SetShaderColor 0.36 0.25 0.20 1.0),
     SetShaderTexture ''leather'',
     SetShaderMaterial ''wood'',
     does DrawBoxMesh,
     does (SetTransformations (vec3 4.2 0.2 4.7) 0.0 60.0 0.0 (vec3 4.0 3.1 (- 1.0))),
     does (SetShaderColor 0.36 0.25 0.20 1.0),
     SetShaderTexture ''leather'',
     SetShaderMaterial ''wood'',
     does DrawBoxMesh,
     does (SetTransformations (vec3 1.6 0.2 4.7) 60.0 0.0 90.0 (vec3 5.0 2.4 (- 2.735))),
     does (SetShaderColor 0.36 0.25 0.20 1.0),
     SetShaderTexture ''leather'',
     does (SetTextureUVScale 0.5 6.0),
     SetShaderMaterial ''wood'',
     does DrawBoxMesh]"

text \<open>RenderCauldron (lines 1570-1687); the loop over the three legs is the \<open>concat\<close>.\<close>

definition RenderCauldron :: stmt where
  "RenderCauldron =
     (let legScale = vec3 0.6 1.9 0.3;
          legPositions = [vec3 (- 2.8) 2.0 (- 3.0), vec3 (- 0.2) 2.0 (- 3.0), vec3 (- 1.25) 2.0 (- 1.0)]
      in seq ([
     does (SetTransformations (vec3 3.2 4.2 3.2) 180.0 0.0 0.0 (vec3 (- 1.5) 4.6 (- 2.5))),
     does (SetShaderColor 0.1 0.1 0.1 1.0),
     SetShaderTexture ''metal'',
     does (SetTextureUVScale 1.0 1.0),
     SetShaderMaterial ''metal'',
     does DrawHalfSphereMesh,
     does (SetTransformations (vec3 3.0 3.0 0.6) 90.0 0.0 0.0 (vec3 (- 1.5) 4.5 (- 2.5))),
     does (SetShaderColor 0.1 0.1 0.1 1.0),
     SetShaderTexture ''metal'',
     does (SetTextureUVScale 1.0 1.0),
     SetShaderMaterial ''metal'',
     does DrawTorusMesh]
     @ concat (map (\<lambda>legPos. [
         does (SetTransformations legScale 0.0 0.0 180.0 legPos),
         does (SetShaderColor 0.1 0.1 0.1 1.0),
         SetShaderTexture ''metal'',
         does (SetTextureUVScale 1.0 1.0),
         SetShaderMaterial ''metal'',
         does DrawTaperedCylinderMesh]) legPositions)
     @ [
     does (call (glEnable GL_BLEND)),
     does (call (glBlendFunc GL_SRC_ALPHA GL_ONE_MINUS_SRC_ALPHA)),
     does (SetTransformations (vec3 2.8 1.5 2.8) 0.0 0.0 0.0 (vec3 (- 1.5) 2.75 (- 2.5))),
     does (SetShaderColor 0.3 0.8 1.0 0.65),
     SetShaderMaterial ''liquid'',
     does DrawCylinderMesh,
     does (call (glDisable GL_BLEND))]))"

text \<open>RenderScene (lines 619-628).\<close>

definition RenderScene :: stmt where
  "RenderScene = seq [
     RenderTable,
     RenderBackdrop,
     RenderPotionBottle,
     RenderCandle,
     RenderBottomBook,
     RenderTopBook,
     RenderCauldron]"

section \<open>What the graphics state is at a draw\<close>

text \<open>
  The part of the graphics state the properties below are about: whether blending is
  enabled, the last value written to the use-texture flag and the last colour written to
  the colour uniform. \<open>step\<close> is the effect of one library call on it, \<open>after\<close> the state
  after a sequence of calls, \<open>draws\<close> the draw calls of a sequence, each with the state it
  is issued in.
\<close>

record render_state =
  blend :: bool
  bUseTexture :: "int option"
  objectColor :: "vec4 option"

fun step :: "render_state \<Rightarrow> event \<Rightarrow> render_state" where
  "step s (glEnable GL_BLEND) = s\<lparr>blend := True\<rparr>"
| "step s (glDisable GL_BLEND) = s\<lparr>blend := False\<rparr>"
| "step s (setIntValue name v) = (if name = g_UseTextureName then s\<lparr>bUseTexture := Some v\<rparr> else s)"
| "step s (setVec4Value name v) = (if name = g_ColorValueName then s\<lparr>objectColor := Some v\<rparr> else s)"
| "step s _ = s"

definition after :: "render_state \<Rightarrow> event list \<Rightarrow> render_state" where
  "after s es = foldl step s es"

fun draws :: "render_state \<Rightarrow> event list \<Rightarrow> (mesh \<times> render_state) list" where
  "draws s [] = []"
| "draws s (Draw m # es) = (m, s) # draws s es"
| "draws s (e # es) = draws (step s e) es"

text \<open>
  The state of a context in which nothing was set: blending is disabled in OpenGL until
  it is enabled.
\<close>

definition initial_state :: render_state where
  "initial_state = \<lparr>blend = False, bUseTexture = None, objectColor = None\<rparr>"

text \<open>
  A draw is transparent when it is issued in flat-colour mode with an alpha below 1;
  every other draw counts as opaque.
\<close>

definition transparent :: "render_state \<Rightarrow> bool" where
  "transparent s = (bUseTexture s = Some 0 \<and> (case objectColor s of Some c \<Rightarrow> v4w c < 1 | None \<Rightarrow> False))"

text \<open>The registry is well formed when the count of loaded textures is within the array.\<close>

definition registry_ok :: "world \<Rightarrow> bool" where
  "registry_ok w = (m_loadedTextures w \<le> int (length (m_textureIDs w)))"

definition render_state_of :: "world \<Rightarrow> render_state" where
  "render_state_of w = after initial_state (trace w)"

text \<open>
  The library calls a statement adds to the trace, and the draws among them, each with the
  state it is issued in.
\<close>

definition segment :: "stmt \<Rightarrow> world \<Rightarrow> event list" where
  "segment f w = (case f w of None \<Rightarrow> [] | Some w' \<Rightarrow> drop (length (trace w)) (trace w'))"


definition draws_since :: "world \<Rightarrow> world \<Rightarrow> (mesh \<times> render_state) list" where
  "draws_since w w' = draws (render_state_of w) (drop (length (trace w)) (trace w'))"

text \<open>Of each draw: the mesh, whether blending is enabled, whether it is transparent.\<close>

fun blending :: "(mesh \<times> render_state) list \<Rightarrow> (mesh \<times> bool \<times> bool) list" where
  "blending [] = []"
| "blending ((m, s) # ds) = (m, blend s, transparent s) # blending ds"

text \<open>The meshes drawn while blending is enabled that are not transparent.\<close>

fun opaque_blended :: "(mesh \<times> render_state) list \<Rightarrow> mesh list" where
  "opaque_blended [] = []"
| "opaque_blended ((m, s) # ds) =
     (if blend s \<and> \<not> transparent s then m # opaque_blended ds else opaque_blended ds)"

text \<open>The meshes a sequence of calls draws, in order.\<close>

fun drawn :: "event list \<Rightarrow> mesh list" where
  "drawn [] = []"
| "drawn (Draw m # es) = m # drawn es"
| "drawn (e # es) = drawn es"


text \<open>
  The statements of the renderers other than the two mode setters SetShaderColor and
  SetShaderTexture.
\<close>

inductive other_stmt :: "stmt \<Rightarrow> bool" where
  "other_stmt (does (SetTransformations scaleXYZ xr yr zr positionXYZ))"
| "other_stmt (does (SetTextureUVScale u v))"
| "other_stmt (SetShaderMaterial materialTag)"
| "other_stmt (does (call (Draw m)))"
| "other_stmt (does (call (glEnable c)))"
| "other_stmt (does (call (glDisable c)))"
| "other_stmt (does (call (glBlendFunc sfactor dfactor)))"

text \<open>The slot SetShaderTexture passes to the sampler, and the calls SetShaderMaterial makes.\<close>

definition slot :: "string \<Rightarrow> world \<Rightarrow> int" where
  "slot tg w = the (FindTextureSlot tg w)"

definition material_events :: "string \<Rightarrow> world \<Rightarrow> event list" where
  "material_events tg w =
     (if length (m_objectMaterials w) > 0 then
        (let (bReturn, material) = FindMaterial tg (uninitialized w) w
         in if bReturn = True then
              [setVec3Value ''material.diffuseColor'' (finite3 (diffuseColor material)),
               setVec3Value ''material.specularColor'' (finite3 (specularColor material)),
               setFloatValue ''material.shininess'' (shininess material)]
            else [])
      else [])"

section \<open>The composition the specification asks of the transform builder\<close>

text \<open>
  The matrices of the specification, written by rows as in a textbook: the translation by
  a vector, the rotations by an angle in radians about the x, y and z axes, the scaling,
  and the row-by-column product.
\<close>

definition rows :: "vec4 \<Rightarrow> vec4 \<Rightarrow> vec4 \<Rightarrow> vec4 \<Rightarrow> mat4" where
  "rows r0 r1 r2 r3 =
     mat4 (vec4 (v4x r0) (v4x r1) (v4x r2) (v4x r3)) (vec4 (v4y r0) (v4y r1) (v4y r2) (v4y r3))
          (vec4 (v4z r0) (v4z r1) (v4z r2) (v4z r3)) (vec4 (v4w r0) (v4w r1) (v4w r2) (v4w r3))"

definition row :: "mat4 \<Rightarrow> nat \<Rightarrow> vec4" where
  "row m i = (let f = [v4x, v4y, v4z, v4w] ! i in vec4 (f (col0 m)) (f (col1 m)) (f (col2 m)) (f (col3 m)))"

definition column :: "mat4 \<Rightarrow> nat \<Rightarrow> vec4" where
  "column m j = [col0 m, col1 m, col2 m, col3 m] ! j"

definition dot4 :: "vec4 \<Rightarrow> vec4 \<Rightarrow> real" where
  "dot4 a b = v4x a * v4x b + v4y a * v4y b + v4z a * v4z b + v4w a * v4w b"

definition matrix_product :: "mat4 \<Rightarrow> mat4 \<Rightarrow> mat4" where
  "matrix_product A B =
     rows (vec4 (dot4 (row A 0) (column B 0)) (dot4 (row A 0) (column B 1))
                (dot4 (row A 0) (column B 2)) (dot4 (row A 0) (column B 3)))
          (vec4 (dot4 (row A 1) (column B 0)) (dot4 (row A 1) (column B 1))
                (dot4 (row A 1) (column B 2)) (dot4 (row A 1) (column B 3)))
          (vec4 (dot4 (row A 2) (column B 0)) (dot4 (row A 2) (column B 1))
                (dot4 (row A 2) (column B 2)) (dot4 (row A 2) (column B 3)))
          (vec4 (dot4 (row A 3) (column B 0)) (dot4 (row A 3) (column B 1))
                (dot4 (row A 3) (column B 2)) (dot4 (row A 3) (column B 3)))"

definition Translation :: "vec3 \<Rightarrow> mat4" where
  "Translation p = rows (vec4 1 0 0 (v3x p)) (vec4 0 1 0 (v3y p)) (vec4 0 0 1 (v3z p)) (vec4 0 0 0 1)"

definition RotationX :: "real \<Rightarrow> mat4" where
  "RotationX a = rows (vec4 1 0 0 0) (vec4 0 (cos a) (- sin a) 0) (vec4 0 (sin a) (cos a) 0) (vec4 0 0 0 1)"

definition RotationY :: "real \<Rightarrow> mat4" where
  "RotationY a = rows (vec4 (cos a) 0 (sin a) 0) (vec4 0 1 0 0) (vec4 (- sin a) 0 (cos a) 0) (vec4 0 0 0 1)"

definition RotationZ :: "real \<Rightarrow> mat4" where
  "RotationZ a = rows (vec4 (cos a) (- sin a) 0 0) (vec4 (sin a) (cos a) 0 0) (vec4 0 0 1 0) (vec4 0 0 0 1)"

definition Scale :: "vec3 \<Rightarrow> mat4" where
  "Scale s = rows (vec4 (v3x s) 0 0 0) (vec4 0 (v3y s) 0 0) (vec4 0 0 (v3z s) 0) (vec4 0 0 0 1)"

definition compose :: "vec3 \<Rightarrow> vec3 \<Rightarrow> vec3 \<Rightarrow> mat4" where
  "compose scale rotationXYZDegrees position =
     matrix_product (Translation position)
       (matrix_product (RotationZ (v3z rotationXYZDegrees * pi / 180))
          (matrix_product (RotationY (v3y rotationXYZDegrees * pi / 180))
             (matrix_product (RotationX (v3x rotationXYZDegrees * pi / 180)) (Scale scale))))"

section \<open>Concrete states\<close>

text \<open>
  A context in which nothing has happened yet, with two image files (one with three
  channels, one with a single channel); the scene manager constructed in it with a shader
  manager and with a null pointer; and the first material of DefineObjectMaterials
  (lines 450-454).
\<close>

definition no_material :: OBJECT_MATERIAL where
  "no_material = \<lparr>diffuseColor = vec3 0 0 0, specularColor = vec3 0 0 0, shininess = 0,
     emissiveColor = vec3 0 0 0, mtag = []\<rparr>"

definition fresh_context :: world where
  "fresh_context = \<lparr>m_pShaderManager = NULL, m_textureIDs = [], m_loadedTextures = 0,
     m_objectMaterials = [], flameColor = fvec3 (Finite 0) (Finite 0) (Finite 0), glfwGetTime = 0,
     generator = (\<lambda>n. 0.02 - 0.01 * real (n mod 5)), generator_calls = 0,
     stbi_load = (\<lambda>f. if f = ''textures/knit.jpg''
                         then Some \<lparr>width = 512, height = 512, colorChannels = 3\<rparr>
                       else if f = ''textures/gray.png''
                         then Some \<lparr>width = 512, height = 512, colorChannels = 1\<rparr>
                       else None),
     gl_texture_names = [], uninitialized = no_material, trace = []\<rparr>"

definition scene0 :: world where
  "scene0 = SceneManager ShaderManager fresh_context"


definition scene_null :: world where
  "scene_null = SceneManager NULL fresh_context"

definition backdropMaterial :: OBJECT_MATERIAL where
  "backdropMaterial = \<lparr>diffuseColor = vec3 0.258824 0.258824 0.435294,
     specularColor = vec3 0.0 0.0 0.0, shininess = 0.3, emissiveColor = vec3 0 0 0,
     mtag = ''backdrop''\<rparr>"

definition scene_one_material :: world where
  "scene_one_material = scene0\<lparr>m_objectMaterials := [backdropMaterial]\<rparr>"

definition scene_one_texture :: world where
  "scene_one_texture = snd (the (CreateGLTexture ''textures/knit.jpg'' ''fabric'' scene0))"

text \<open>
  The colour lines 524-543 of SetupSceneLights compute in a state: the clamped red, green
  and blue, from the clock and the next three numbers of the generator.
\<close>

definition computed_flame_color :: "world \<Rightarrow> fvec3" where
  "computed_flame_color w =
     (let n = generator_calls w;
          flameTime = to_float32 (glfwGetTime w);
          flickerFactor = float_add (float_mult (float_sin (float_mult flameTime (Finite 3.0)))
                                       (Finite 0.3)) (Finite 0.5);
          red = float_add (Finite 1.0) (Finite (generator w n));
          green = float_add (float_add (Finite 0.2) (float_mult flickerFactor (Finite 0.2)))
                    (Finite (generator w (n + 1)));
          blue = float_add (Finite 0.1) (float_mult (Finite (generator w (n + 2))) (Finite 0.1))
      in fvec3 (glm_clamp32 red (Finite 0.0) (Finite 1.0))
               (glm_clamp32 green (Finite 0.0) (Finite 1.0))
               (glm_clamp32 blue (Finite 0.0) (Finite 1.0)))"

text \<open>Whether a library call writes the use-texture flag.\<close>

fun writes_flag :: "event \<Rightarrow> bool" where
  "writes_flag (setIntValue name v) = (name = g_UseTextureName)"
| "writes_flag _ = False"

text \<open>The statements of one flat-coloured part: transformation, material, draw.\<close>

definition flat_part :: "stmt list" where
  "flat_part = [does (SetTransformations (vec3 1 1 1) 0 0 0 (vec3 0 0 0)), SetShaderMaterial ''wood'',
     does (call (Draw BoxMesh))]"

section \<open>Facts about traces\<close>

lemma after_Nil [simp]: "after s [] = s"
  by (simp add: after_def)

lemma after_Cons [simp]: "after s (e # es) = after (step s e) es"
  by (simp add: after_def)

lemma after_append [simp]: "after s (xs @ ys) = after (after s xs) ys"
  by (simp add: after_def)

lemma draws_append [simp]: "draws s (xs @ ys) = draws s xs @ draws (after s xs) ys"
  by (induction s xs rule: draws.induct) auto

lemma drawn_append [simp]: "drawn (xs @ ys) = drawn xs @ drawn ys"
  by (induction xs rule: drawn.induct) auto

lemma scene0_shader_manager: "m_pShaderManager scene0 \<noteq> NULL"
  by (simp add: scene0_def SceneManager_def)

lemma scene0_registry_ok: "registry_ok scene0"
  by (simp add: registry_ok_def scene0_def SceneManager_def)


section \<open>Texture registry: properties\<close>

text \<open>
  C10. Right after the constructor the count of loaded textures is zero, all 16 slots carry
  the placeholder tag \<open>/0\<close>, and FindTextureID and FindTextureSlot return the sentinel -1
  for every tag, the placeholder tag included: the loops stop at the count, not at the
  array.
\<close>

theorem constructor_lookups_return_sentinel:
  "m_loadedTextures (SceneManager p w) = 0
   \<and> map tag (m_textureIDs (SceneManager p w)) = replicate 16 ''/0''
   \<and> FindTextureID tg (SceneManager p w) = Some (- 1)
   \<and> FindTextureSlot tg (SceneManager p w) = Some (- 1)
   \<and> FindTextureID ''/0'' (SceneManager p w) = Some (- 1)
   \<and> FindTextureSlot ''/0'' (SceneManager p w) = Some (- 1)"
  by (simp add: SceneManager_def FindTextureID_def FindTextureSlot_def
        FindTextureID_loop.simps FindTextureSlot_loop.simps)

text \<open>
  C6. When the image cannot be decoded, or is decoded with a channel count other than 3
  and 4, CreateGLTexture returns false, and the count of loaded textures and the slots
  are as before.
\<close>

theorem CreateGLTexture_failure_keeps_count:
  "stbi_load w filename = None \<or>
     (\<exists>img. stbi_load w filename = Some img \<and> colorChannels img \<noteq> 3 \<and> colorChannels img \<noteq> 4)
   \<Longrightarrow> \<exists>w'. CreateGLTexture filename tg w = Some (False, w')
         \<and> m_loadedTextures w' = m_loadedTextures w \<and> m_textureIDs w' = m_textureIDs w"
  by (auto simp: CreateGLTexture_def gen_texture_def call_def Let_def split: option.splits)

theorem CreateGLTexture_failure_keeps_count_witness:
  "(stbi_load scene0 ''textures/gray.png'' = None \<or>
     (\<exists>img. stbi_load scene0 ''textures/gray.png'' = Some img
        \<and> colorChannels img \<noteq> 3 \<and> colorChannels img \<noteq> 4))
   \<and> (\<exists>w'. CreateGLTexture ''textures/gray.png'' ''gray'' scene0 = Some (False, w')
         \<and> m_loadedTextures w' = m_loadedTextures scene0 \<and> m_textureIDs w' = m_textureIDs scene0)"
proof -
  have h: "stbi_load scene0 ''textures/gray.png'' = None \<or>
     (\<exists>img. stbi_load scene0 ''textures/gray.png'' = Some img
        \<and> colorChannels img \<noteq> 3 \<and> colorChannels img \<noteq> 4)"
    by (simp add: scene0_def SceneManager_def fresh_context_def)
  from h CreateGLTexture_failure_keeps_count [OF h, of "''gray''"] show ?thesis by (rule conjI)
qed

lemma scene_one_texture_eq:
  "scene_one_texture = scene0
     \<lparr>m_textureIDs := (replicate 16 \<lparr>tag = ''/0'', ID = - 1\<rparr>)[0 := \<lparr>tag = ''fabric'', ID = 1\<rparr>],
      m_loadedTextures := 1,
      gl_texture_names := [1],
      trace := [glGenTextures 1, glBindTexture 1,
                glTexParameteri GL_TEXTURE_WRAP_S GL_REPEAT, glTexParameteri GL_TEXTURE_WRAP_T GL_REPEAT,
                glTexParameteri GL_TEXTURE_MIN_FILTER GL_LINEAR, glTexParameteri GL_TEXTURE_MAG_FILTER GL_LINEAR,
                glTexImage2D GL_RGB8 512 512, glGenerateMipmap, stbi_image_free, glBindTexture 0]\<rparr>"
  by (simp add: scene_one_texture_def scene0_def SceneManager_def fresh_context_def
        CreateGLTexture_def gen_texture_def call_def unused_name_def Let_def)

lemma DestroyGLTextures_nothing_loaded:
  "m_loadedTextures w \<le> 0 \<Longrightarrow> DestroyGLTextures w = Some w"
  by (simp add: DestroyGLTextures_def DestroyGLTextures_loop.simps)

lemma DestroyGLTextures_loop_keeps:
  "DestroyGLTextures_loop i w = Some w' \<Longrightarrow> set (gl_texture_names w) \<subseteq> set (gl_texture_names w')"
proof (induction i w rule: DestroyGLTextures_loop.induct)
  case (1 i w)
  show ?case
  proof (cases "i < m_loadedTextures w")
    case False
    with "1.prems" show ?thesis by (simp add: DestroyGLTextures_loop.simps)
  next
    case True
    show ?thesis
    proof (cases "0 \<le> i \<and> nat i < length (m_textureIDs w)")
      case False
      with True "1.prems" show ?thesis by (simp add: DestroyGLTextures_loop.simps)
    next
      case inb: True
      obtain n w1 where g: "gen_texture w = (n, w1)" by (cases "gen_texture w")
      let ?w2 = "w1\<lparr>m_textureIDs := (m_textureIDs w1)[nat i := (m_textureIDs w1 ! nat i)\<lparr>ID := n\<rparr>]\<rparr>"
      from True inb g "1.prems" have r: "DestroyGLTextures_loop (i + 1) ?w2 = Some w'"
        by (simp add: DestroyGLTextures_loop.simps [of i w])
      from "1.IH" [OF True inb refl g [symmetric] r]
      have "set (gl_texture_names ?w2) \<subseteq> set (gl_texture_names w')" .
      moreover from g have "set (gl_texture_names w) \<subseteq> set (gl_texture_names ?w2)"
        by (auto simp: gen_texture_def call_def Let_def)
      ultimately show ?thesis by blast
    qed
  qed
qed

text \<open>No texture name that is in use before DestroyGLTextures is released by it.\<close>

lemma DestroyGLTextures_keeps_textures:
  "DestroyGLTextures w = Some w' \<Longrightarrow> set (gl_texture_names w) \<subseteq> set (gl_texture_names w')"
  unfolding DestroyGLTextures_def by (rule DestroyGLTextures_loop_keeps)

text \<open>
  C3. The claim is that DestroyGLTextures releases every registered texture and that a
  second call changes nothing. In the state with one loaded texture (name 1), the call
  leaves name 1 in use and puts a second name in use; the second call puts a third name
  in use. In no state does the call release a name (\<open>DestroyGLTextures_keeps_textures\<close>);
  with no texture loaded it changes nothing (\<open>DestroyGLTextures_nothing_loaded\<close>).
\<close>

theorem DestroyGLTextures_releases_nothing:
  "gl_texture_names scene_one_texture = [1]
   \<and> map_option gl_texture_names (DestroyGLTextures scene_one_texture) = Some [1, 2]
   \<and> map_option gl_texture_names (Option.bind (DestroyGLTextures scene_one_texture) DestroyGLTextures)
       = Some [1, 2, 3]"
  by (simp add: scene_one_texture_eq scene0_def SceneManager_def fresh_context_def
        DestroyGLTextures_def DestroyGLTextures_loop.simps gen_texture_def call_def unused_name_def Let_def)

section \<open>Material registry: properties\<close>

lemma FindMaterial_loop_absent:
  "tg \<notin> mtag ` set (drop index ms) \<Longrightarrow> FindMaterial_loop ms tg (index, False, m) = (True, m)"
proof (induction "length ms - index" arbitrary: index)
  case 0
  then show ?case by (simp add: FindMaterial_loop.simps)
next
  case (Suc n)
  then have lt: "index < length ms" by simp
  then have d: "drop index ms = ms ! index # drop (Suc index) ms" by (simp add: Cons_nth_drop_Suc)
  with Suc.prems have ne: "mtag (ms ! index) \<noteq> tg" and rest: "tg \<notin> mtag ` set (drop (Suc index) ms)"
    by auto
  from Suc.hyps(2) lt have "n = length ms - Suc index" by simp
  from Suc.hyps(1) [OF this rest] ne lt show ?case
    by (subst FindMaterial_loop.simps) simp
qed

text \<open>On a registry that is not empty, a tag no entry carries is reported as found.\<close>

lemma FindMaterial_absent:
  "m_objectMaterials w \<noteq> [] \<Longrightarrow> tg \<notin> mtag ` set (m_objectMaterials w) \<Longrightarrow>
   FindMaterial tg m w = (True, m)"
  using FindMaterial_loop_absent [of tg 0 "m_objectMaterials w" m] by (simp add: FindMaterial_def)

lemma FindMaterial_loop_first_match:
  "index \<le> length ms \<Longrightarrow> i < length ms \<Longrightarrow> index \<le> i \<Longrightarrow> mtag (ms ! i) = tg \<Longrightarrow>
   (\<forall>j. index \<le> j \<and> j < i \<longrightarrow> mtag (ms ! j) \<noteq> tg) \<Longrightarrow>
   FindMaterial_loop ms tg (index, False, m) =
     (True, m\<lparr>diffuseColor := diffuseColor (ms ! i), specularColor := specularColor (ms ! i),
              shininess := shininess (ms ! i)\<rparr>)"
proof (induction "i - index" arbitrary: index)
  case 0
  then have "index = i" by simp
  with 0 show ?case
    by (subst FindMaterial_loop.simps, simp, subst FindMaterial_loop.simps, simp)
next
  case (Suc n)
  then have ne: "mtag (ms ! index) \<noteq> tg" and lt: "index < length ms" by auto
  have "FindMaterial_loop ms tg (Suc index, False, m) =
     (True, m\<lparr>diffuseColor := diffuseColor (ms ! i), specularColor := specularColor (ms ! i),
              shininess := shininess (ms ! i)\<rparr>)"
    using Suc by (intro Suc.hyps(1)) auto
  with ne lt show ?case by (subst FindMaterial_loop.simps) simp
qed

text \<open>A tag some entry carries: the three fields of the first such entry are returned.\<close>

lemma FindMaterial_first_match:
  "i < length (m_objectMaterials w) \<Longrightarrow> mtag (m_objectMaterials w ! i) = tg \<Longrightarrow>
   (\<forall>j < i. mtag (m_objectMaterials w ! j) \<noteq> tg) \<Longrightarrow>
   FindMaterial tg m w =
     (True, m\<lparr>diffuseColor := diffuseColor (m_objectMaterials w ! i),
              specularColor := specularColor (m_objectMaterials w ! i),
              shininess := shininess (m_objectMaterials w ! i)\<rparr>)"
  using FindMaterial_loop_first_match [of 0 "m_objectMaterials w" i tg m]
  by (auto simp: FindMaterial_def)

text \<open>
  C1. The claim is that FindMaterial reports not-found when no entry carries the tag, and
  returns the fields of the first matching entry otherwise. The second half holds
  (\<open>FindMaterial_first_match\<close>). The first half fails on a registry that is not empty: with
  the single material \<open>backdrop\<close> registered, the lookup of \<open>glass\<close> returns true and leaves
  the material it was given as it was.
\<close>

theorem FindMaterial_absent_tag_reports_found:
  "m_objectMaterials scene_one_material = [backdropMaterial]
   \<and> mtag backdropMaterial \<noteq> ''glass''
   \<and> FindMaterial ''glass'' no_material scene_one_material = (True, no_material)"
  by (simp add: scene_one_material_def backdropMaterial_def FindMaterial_def FindMaterial_loop.simps)

section \<open>Transform builder: properties\<close>

lemmas vec_defs = smul3_def smul4_def add4_def mat4_identity_def mat4_times_vec4_def
  rows_def row_def column_def dot4_def

lemma mat4_times_matrix_product: "mat4_times A B = matrix_product A B"
  by (simp add: mat4_times_def matrix_product_def vec_defs)

lemma mat4_times_vec4_assoc:
  "mat4_times_vec4 (mat4 (mat4_times_vec4 A (col0 B)) (mat4_times_vec4 A (col1 B))
                         (mat4_times_vec4 A (col2 B)) (mat4_times_vec4 A (col3 B))) v
   = mat4_times_vec4 A (mat4_times_vec4 B v)"
  by (simp add: vec_defs algebra_simps)

lemma mat4_times_assoc: "mat4_times (mat4_times A B) C = mat4_times A (mat4_times B C)"
  by (simp add: mat4_times_def mat4_times_vec4_assoc)

lemma matrix_product_assoc:
  "matrix_product (matrix_product A B) C = matrix_product A (matrix_product B C)"
  using mat4_times_assoc [of A B C] by (simp add: mat4_times_matrix_product)

lemma glm_scale_Scale: "glm_scale v = Scale v"
  by (simp add: glm_scale_def Scale_def vec_defs)

lemma glm_translate_Translation: "glm_translate v = Translation v"
  by (simp add: glm_translate_def Translation_def vec_defs)

lemma glm_rotate_X: "glm_rotate a (vec3 1 0 0) = RotationX a"
  by (simp add: glm_rotate_def RotationX_def glm_normalize_def vec_defs Let_def)

lemma glm_rotate_Y: "glm_rotate a (vec3 0 1 0) = RotationY a"
  by (simp add: glm_rotate_def RotationY_def glm_normalize_def vec_defs Let_def)

lemma glm_rotate_Z: "glm_rotate a (vec3 0 0 1) = RotationZ a"
  by (simp add: glm_rotate_def RotationZ_def glm_normalize_def vec_defs Let_def)

lemma modelView_compose:
  "modelView sc xr yr zr p = compose sc (vec3 xr yr zr) p"
  by (simp add: modelView_def compose_def Let_def glm_scale_Scale glm_translate_Translation
        glm_rotate_X glm_rotate_Y glm_rotate_Z glm_radians_def mat4_times_matrix_product
        matrix_product_assoc)

lemma modelView_identity: "modelView (vec3 1 1 1) 0 0 0 (vec3 0 0 0) = mat4_identity"
  by (simp add: modelView_def glm_scale_def glm_rotate_def glm_translate_def
        glm_radians_def glm_normalize_def mat4_times_def mat4_times_vec4_def mat4_identity_def
        smul3_def smul4_def add4_def Let_def)

text \<open>
  C4. For every scale, every triple of angles in degrees and every position, the matrix
  SetTransformations passes to the shader manager under the name \<open>model\<close> is the product
  Translation . RotationZ . RotationY . RotationX . Scale of the specification, the angles
  converted to radians; nothing is passed when the pointer is null. Scale (1,1,1), angles
  (0,0,0) and position (0,0,0) give the identity matrix. Numbers are real numbers here,
  not \<open>float\<close>s.
\<close>

theorem SetTransformations_pushes_composition:
  "SetTransformations scaleXYZ xr yr zr positionXYZ w =
     (if m_pShaderManager w \<noteq> NULL
      then call (setMat4Value ''model'' (compose scaleXYZ (vec3 xr yr zr) positionXYZ)) w
      else w)
   \<and> compose (vec3 1 1 1) (vec3 0 0 0) (vec3 0 0 0) = mat4_identity
   \<and> SetTransformations (vec3 1 1 1) 0 0 0 (vec3 0 0 0) w =
     (if m_pShaderManager w \<noteq> NULL then call (setMat4Value ''model'' mat4_identity) w else w)"
  using modelView_identity
  by (simp add: SetTransformations_def g_ModelName_def modelView_compose)

section \<open>Uniform dispatch: properties\<close>

text \<open>
  C9. With a null shader-manager pointer, SetTransformations, SetShaderColor,
  SetShaderTexture and SetTextureUVScale return normally and leave the whole state as it
  was, the trace of library calls included.
\<close>

theorem null_shader_manager_no_op:
  "m_pShaderManager w = NULL \<Longrightarrow>
     SetTransformations scaleXYZ xr yr zr positionXYZ w = w
   \<and> SetShaderColor r g b a w = w
   \<and> SetShaderTexture textureTag w = Some w
   \<and> SetTextureUVScale u v w = w"
  by (simp add: SetTransformations_def SetShaderColor_def SetShaderTexture_def SetTextureUVScale_def)

theorem null_shader_manager_no_op_witness:
  "m_pShaderManager scene_null = NULL
   \<and> SetTransformations (vec3 1 1 1) 0 0 0 (vec3 0 0 0) scene_null = scene_null
   \<and> SetShaderColor 1 1 1 1 scene_null = scene_null
   \<and> SetShaderTexture ''fabric'' scene_null = Some scene_null
   \<and> SetTextureUVScale 1 1 scene_null = scene_null"
proof -
  have h: "m_pShaderManager scene_null = NULL" by (simp add: scene_null_def SceneManager_def)
  from h null_shader_manager_no_op [OF h] show ?thesis by (rule conjI)
qed

lemma step_keeps_flag: "\<not> writes_flag e \<Longrightarrow> bUseTexture (step s e) = bUseTexture s"
  by (cases "(s, e)" rule: step.cases) auto

lemma after_keeps_flag:
  "\<forall>e \<in> set es. \<not> writes_flag e \<Longrightarrow> bUseTexture (after s es) = bUseTexture s"
  by (induction es arbitrary: s) (auto simp: step_keeps_flag)

lemma draws_keep_flag:
  "\<forall>e \<in> set es. \<not> writes_flag e \<Longrightarrow> (m, st) \<in> set (draws s es) \<Longrightarrow> bUseTexture st = bUseTexture s"
proof (induction s es rule: draws.induct)
  case (1 s)
  then show ?case by simp
next
  case (2 s m' es)
  then show ?case by auto
qed (auto simp: step_keeps_flag)

lemma SetTransformations_events:
  "\<exists>es. SetTransformations sc xr yr zr p w = w\<lparr>trace := trace w @ es\<rparr> \<and> (\<forall>e \<in> set es. \<not> writes_flag e)"
proof (cases "m_pShaderManager w = NULL")
  case True
  then have "SetTransformations sc xr yr zr p w = w\<lparr>trace := trace w @ []\<rparr>"
    by (simp add: SetTransformations_def)
  then show ?thesis by fastforce
next
  case False
  then have "SetTransformations sc xr yr zr p w =
      w\<lparr>trace := trace w @ [setMat4Value g_ModelName (modelView sc xr yr zr p)]\<rparr>"
    by (simp add: SetTransformations_def call_def)
  then show ?thesis by fastforce
qed

lemma SetTextureUVScale_events:
  "\<exists>es. SetTextureUVScale u v w = w\<lparr>trace := trace w @ es\<rparr> \<and> (\<forall>e \<in> set es. \<not> writes_flag e)"
proof (cases "m_pShaderManager w = NULL")
  case True
  then have "SetTextureUVScale u v w = w\<lparr>trace := trace w @ []\<rparr>"
    by (simp add: SetTextureUVScale_def)
  then show ?thesis by fastforce
next
  case False
  then have "SetTextureUVScale u v w = w\<lparr>trace := trace w @ [setVec2Value ''UVscale'' (vec2 u v)]\<rparr>"
    by (simp add: SetTextureUVScale_def call_def)
  then show ?thesis by fastforce
qed

lemma SetShaderMaterial_trace:
  "SetShaderMaterial tg w = Some w' \<Longrightarrow> w' = w\<lparr>trace := trace w @ material_events tg w\<rparr>"
  by (auto simp: SetShaderMaterial_def material_events_def call_def Let_def
      split: if_splits prod.splits)

lemma material_events_no_flag: "\<forall>e \<in> set (material_events tg w). \<not> writes_flag e"
  by (auto simp: material_events_def Let_def split: prod.splits)

lemma SetShaderMaterial_events:
  assumes "SetShaderMaterial tg w = Some w'"
  shows "\<exists>es. w' = w\<lparr>trace := trace w @ es\<rparr> \<and> (\<forall>e \<in> set es. \<not> writes_flag e)"
  using SetShaderMaterial_trace [OF assms] material_events_no_flag by blast

lemma call_events:
  "\<not> writes_flag e \<Longrightarrow> \<exists>es. call e w = w\<lparr>trace := trace w @ es\<rparr> \<and> (\<forall>e \<in> set es. \<not> writes_flag e)"
  by (rule exI[of _ "[e]"]) (simp add: call_def)

lemma other_stmt_events:
  assumes "other_stmt f" "f w = Some w'"
  shows "\<exists>es. w' = w\<lparr>trace := trace w @ es\<rparr> \<and> (\<forall>e \<in> set es. \<not> writes_flag e)"
  using assms
proof (induction rule: other_stmt.induct)
  case (1 scaleXYZ xr yr zr positionXYZ)
  then show ?case using SetTransformations_events [of scaleXYZ xr yr zr positionXYZ w]
    by (simp add: does_def)
next
  case (2 u v)
  then show ?case using SetTextureUVScale_events [of u v w] by (simp add: does_def)
next
  case (3 materialTag)
  then show ?case by (rule SetShaderMaterial_events)
next
  case (4 m)
  then show ?case using call_events [of "Draw m" w] by (simp add: does_def)
next
  case (5 c)
  then show ?case using call_events [of "glEnable c" w] by (simp add: does_def)
next
  case (6 c)
  then show ?case using call_events [of "glDisable c" w] by (simp add: does_def)
next
  case (7 sfactor dfactor)
  then show ?case using call_events [of "glBlendFunc sfactor dfactor" w] by (simp add: does_def)
qed

lemma other_stmts_events:
  "list_all other_stmt ss \<Longrightarrow> seq ss w = Some w' \<Longrightarrow>
   \<exists>es. w' = w\<lparr>trace := trace w @ es\<rparr> \<and> (\<forall>e \<in> set es. \<not> writes_flag e)"
proof (induction ss arbitrary: w)
  case Nil
  then show ?case by (auto intro!: exI[of _ "[]"])
next
  case (Cons f ss)
  from Cons.prems obtain w1 where f: "f w = Some w1" and r: "seq ss w1 = Some w'"
    by (auto split: option.splits)
  from Cons.prems f other_stmt_events obtain es1 where
    e1: "w1 = w\<lparr>trace := trace w @ es1\<rparr>" "\<forall>e \<in> set es1. \<not> writes_flag e" by fastforce
  from Cons.IH [OF _ r] Cons.prems obtain es2 where
    e2: "w' = w1\<lparr>trace := trace w1 @ es2\<rparr>" "\<forall>e \<in> set es2. \<not> writes_flag e" by auto
  from e1 e2 have "w' = w\<lparr>trace := trace w @ (es1 @ es2)\<rparr>" by simp
  moreover from e1 e2 have "\<forall>e \<in> set (es1 @ es2). \<not> writes_flag e" by auto
  ultimately show ?case by blast
qed

lemma flag_follows:
  assumes "list_all other_stmt ss" "seq ss w1 = Some w2"
  shows "bUseTexture (render_state_of w2) = bUseTexture (render_state_of w1)
     \<and> (\<forall>(m, st) \<in> set (draws_since w1 w2). bUseTexture st = bUseTexture (render_state_of w1))"
proof -
  from other_stmts_events [OF assms] obtain es where
    es: "w2 = w1\<lparr>trace := trace w1 @ es\<rparr>" "\<forall>e \<in> set es. \<not> writes_flag e" by blast
  then show ?thesis
    by (auto simp: render_state_of_def draws_since_def after_keeps_flag dest: draws_keep_flag)
qed

text \<open>
  C8. The claim is that every call of SetShaderColor sets the use-texture flag to false
  and writes the colour, that every call of SetShaderTexture sets the flag to true, and
  that the flag at a draw is the mode of the last of the two setters. As amended: when the
  shader-manager pointer is not null, SetShaderColor writes 0 to the flag and then the
  colour, SetShaderTexture (when it returns) leaves 1 in the flag, and after either setter
  the flag keeps that value through any sequence of the other statements of the
  renderers, at each draw of the sequence and at its end.
\<close>

theorem use_texture_flag_follows_last_setter:
  assumes "m_pShaderManager w \<noteq> NULL"
  shows "(let w1 = SetShaderColor r g b a w in
            trace w1 = trace w @ [setIntValue g_UseTextureName 0, setVec4Value g_ColorValueName (vec4 r g b a)]
          \<and> bUseTexture (render_state_of w1) = Some 0
          \<and> objectColor (render_state_of w1) = Some (vec4 r g b a)
          \<and> (\<forall>ss w2. list_all other_stmt ss \<and> seq ss w1 = Some w2 \<longrightarrow>
                bUseTexture (render_state_of w2) = Some 0
              \<and> (\<forall>(m, st) \<in> set (draws_since w1 w2). bUseTexture st = Some 0)))
       \<and> (\<forall>w1. SetShaderTexture textureTag w = Some w1 \<longrightarrow>
            bUseTexture (render_state_of w1) = Some 1
          \<and> (\<forall>ss w2. list_all other_stmt ss \<and> seq ss w1 = Some w2 \<longrightarrow>
                bUseTexture (render_state_of w2) = Some 1
              \<and> (\<forall>(m, st) \<in> set (draws_since w1 w2). bUseTexture st = Some 1)))"
proof -
  have c: "bUseTexture (render_state_of (SetShaderColor r g b a w)) = Some 0"
    "objectColor (render_state_of (SetShaderColor r g b a w)) = Some (vec4 r g b a)"
    "trace (SetShaderColor r g b a w) =
       trace w @ [setIntValue g_UseTextureName 0, setVec4Value g_ColorValueName (vec4 r g b a)]"
    using assms by (simp_all add: SetShaderColor_def call_def render_state_of_def
         g_UseTextureName_def g_ColorValueName_def)
  have t: "bUseTexture (render_state_of w1) = Some 1" if "SetShaderTexture textureTag w = Some w1" for w1
    using assms that
    by (auto simp: SetShaderTexture_def call_def render_state_of_def Let_def
          g_UseTextureName_def g_TextureValueName_def split: option.splits)
  have f: "bUseTexture (render_state_of w2) = v
       \<and> (\<forall>(m, st) \<in> set (draws_since w1 w2). bUseTexture st = v)"
    if "bUseTexture (render_state_of w1) = v" "list_all other_stmt ss \<and> seq ss w1 = Some w2"
    for w1 w2 ss v
    using flag_follows [of ss w1 w2] that by simp
  show ?thesis
    unfolding Let_def
  proof (intro conjI allI impI)
    show "trace (SetShaderColor r g b a w) =
        trace w @ [setIntValue g_UseTextureName 0, setVec4Value g_ColorValueName (vec4 r g b a)]"
      by (rule c)
    show "bUseTexture (render_state_of (SetShaderColor r g b a w)) = Some 0" by (rule c)
    show "objectColor (render_state_of (SetShaderColor r g b a w)) = Some (vec4 r g b a)" by (rule c)
  next
    fix ss w2
    assume "list_all other_stmt ss \<and> seq ss (SetShaderColor r g b a w) = Some w2"
    from f [OF c(1) this]
    show "bUseTexture (render_state_of w2) = Some 0"
      and "\<forall>(m, st) \<in> set (draws_since (SetShaderColor r g b a w) w2). bUseTexture st = Some 0"
      by simp_all
  next
    fix w1
    assume "SetShaderTexture textureTag w = Some w1"
    then show "bUseTexture (render_state_of w1) = Some 1" by (rule t)
  next
    fix w1 ss w2
    assume s: "SetShaderTexture textureTag w = Some w1"
      and o: "list_all other_stmt ss \<and> seq ss w1 = Some w2"
    from f [OF t [OF s] o]
    show "bUseTexture (render_state_of w2) = Some 1"
      and "\<forall>(m, st) \<in> set (draws_since w1 w2). bUseTexture st = Some 1"
      by simp_all
  qed
qed

theorem use_texture_flag_follows_last_setter_witness:
  "m_pShaderManager scene0 \<noteq> NULL
   \<and> list_all other_stmt flat_part
   \<and> seq flat_part (SetShaderColor 1 1 1 1 scene0) \<noteq> None
   \<and> SetShaderTexture ''fabric'' scene0 \<noteq> None
   \<and> bUseTexture (render_state_of (SetShaderColor 1 1 1 1 scene0)) = Some 0
   \<and> objectColor (render_state_of (SetShaderColor 1 1 1 1 scene0)) = Some (vec4 1 1 1 1)
   \<and> bUseTexture (render_state_of (the (seq flat_part (SetShaderColor 1 1 1 1 scene0)))) = Some 0
   \<and> bUseTexture (render_state_of (the (SetShaderTexture ''fabric'' scene0))) = Some 1"
proof -
  have h: "m_pShaderManager scene0 \<noteq> NULL" by (rule scene0_shader_manager)
  have o: "list_all other_stmt flat_part"
    by (simp add: flat_part_def other_stmt.intros)
  have r: "seq flat_part (SetShaderColor 1 1 1 1 scene0) \<noteq> None"
    by (simp add: flat_part_def does_def SetShaderMaterial_def SetShaderColor_def
          SetTransformations_def call_def scene0_def SceneManager_def fresh_context_def)
  have t: "SetShaderTexture ''fabric'' scene0 \<noteq> None"
    by (simp add: SetShaderTexture_def FindTextureSlot_def FindTextureSlot_loop.simps call_def
          scene0_def SceneManager_def fresh_context_def)
  from r obtain w2 where w2: "seq flat_part (SetShaderColor 1 1 1 1 scene0) = Some w2" by auto
  from t obtain w1 where w1: "SetShaderTexture ''fabric'' scene0 = Some w1" by auto
  note flag = use_texture_flag_follows_last_setter [OF h, of 1 1 1 1 "''fabric''", unfolded Let_def]
  from flag have c: "bUseTexture (render_state_of (SetShaderColor 1 1 1 1 scene0)) = Some 0"
    and d: "objectColor (render_state_of (SetShaderColor 1 1 1 1 scene0)) = Some (vec4 1 1 1 1)"
    by blast+
  from flag o w2 have a: "bUseTexture (render_state_of w2) = Some 0" by blast
  from flag w1 have b: "bUseTexture (render_state_of w1) = Some 1" by blast
  from h o r t a b c d w1 w2 show ?thesis by simp
qed

theorem SetShaderColor_null_counterexample:
  "m_pShaderManager scene_null = NULL
   \<and> bUseTexture (render_state_of (SetShaderColor 1 1 1 1 scene_null)) \<noteq> Some 0
   \<and> objectColor (render_state_of (SetShaderColor 1 1 1 1 scene_null)) \<noteq> Some (vec4 1 1 1 1)
   \<and> trace (SetShaderColor 1 1 1 1 scene_null) = trace scene_null"
  by (simp add: SetShaderColor_def scene_null_def SceneManager_def fresh_context_def
        render_state_of_def initial_state_def)

section \<open>Lighting setup: properties\<close>

lemma float_less_NaN [simp]: "float_less a NaN = False"
  by (cases a) simp_all

lemma glm_clamp32_NaN: "glm_clamp32 NaN minVal maxVal = NaN"
  by (simp add: glm_clamp32_def glm_min32_def glm_max32_def)

lemma glm_clamp32_unit:
  "glm_clamp32 (Finite x) (Finite 0.0) (Finite 1.0) = Finite (min 1 (max 0 x))"
  by (simp add: glm_clamp32_def glm_min32_def glm_max32_def min_def max_def)

lemma to_float32_Finite: "\<bar>x\<bar> \<le> FLT_MAX \<Longrightarrow> to_float32 x = Finite x"
  by (auto simp: to_float32_def)

lemma FLT_MAX_ge: "4 \<le> FLT_MAX"
  by (simp add: FLT_MAX_def)

lemma to_float32_small: "\<bar>x\<bar> \<le> 4 \<Longrightarrow> to_float32 x = Finite x"
  using FLT_MAX_ge by (intro to_float32_Finite) linarith

lemma sin_bounds: "- 1 \<le> sin (x::real)" "sin (x::real) \<le> 1"
  by simp_all

lemma flicker_small:
  assumes "- 1 \<le> (x::real)" "x \<le> 1"
  shows "\<bar>x * 0.3\<bar> \<le> 4" "\<bar>x * 0.3 + 0.5\<bar> \<le> 4" "\<bar>(x * 0.3 + 0.5) * 0.2\<bar> \<le> 4"
    "\<bar>0.2 + (x * 0.3 + 0.5) * 0.2\<bar> \<le> 4"
    "\<bar>j\<bar> \<le> 0.03 \<Longrightarrow> \<bar>0.2 + (x * 0.3 + 0.5) * 0.2 + j\<bar> \<le> 4"
  using assms by (simp_all add: abs_le_iff algebra_simps)

lemma jitter_small:
  assumes "\<bar>j::real\<bar> \<le> 0.03"
  shows "\<bar>1.0 + j\<bar> \<le> 4" "\<bar>j * 0.1\<bar> \<le> 4" "\<bar>0.1 + j * 0.1\<bar> \<le> 4"
proof -
  from assms [unfolded abs_le_iff] have b: "j \<le> 0.03" "- j \<le> 0.03" by simp_all
  then show "\<bar>1.0 + j\<bar> \<le> 4" "\<bar>j * 0.1\<bar> \<le> 4" "\<bar>0.1 + j * 0.1\<bar> \<le> 4"
    unfolding abs_le_iff by simp_all
qed

text \<open>The computation of the flame colour when nothing overflows.\<close>

lemma computed_flame_color_finite:
  assumes t: "\<bar>glfwGetTime w\<bar> * 3 \<le> FLT_MAX"
    and j1: "\<bar>generator w (generator_calls w)\<bar> \<le> 0.03"
    and j2: "\<bar>generator w (generator_calls w + 1)\<bar> \<le> 0.03"
    and j3: "\<bar>generator w (generator_calls w + 2)\<bar> \<le> 0.03"
  shows "computed_flame_color w =
     fvec3 (Finite (min 1 (max 0 (1 + generator w (generator_calls w)))))
           (Finite (min 1 (max 0 (0.2 + (sin (glfwGetTime w * 3) * 0.3 + 0.5) * 0.2
                                  + generator w (generator_calls w + 1)))))
           (Finite (min 1 (max 0 (0.1 + generator w (generator_calls w + 2) * 0.1))))"
proof -
  let ?t = "glfwGetTime w"
  let ?s = "sin (?t * 3.0)"
  let ?f = "?s * 0.3 + 0.5"
  let ?j1 = "generator w (generator_calls w)"
  let ?j2 = "generator w (generator_calls w + 1)"
  let ?j3 = "generator w (generator_calls w + 2)"
  note sb = sin_bounds [of "?t * 3.0"]
  from t have "\<bar>?t\<bar> \<le> FLT_MAX" by linarith
  then have a: "to_float32 ?t = Finite ?t" by (rule to_float32_Finite)
  from t have b: "to_float32 (?t * 3.0) = Finite (?t * 3.0)"
    by (intro to_float32_Finite) (simp add: abs_mult)
  note fs = flicker_small [OF sb]
  have c: "to_float32 (?s * 0.3) = Finite (?s * 0.3)"
    by (rule to_float32_small [OF fs(1)])
  have d: "to_float32 (?s * 0.3 + 0.5) = Finite ?f"
    by (rule to_float32_small [OF fs(2)])
  have e: "to_float32 (?f * 0.2) = Finite (?f * 0.2)"
    by (rule to_float32_small [OF fs(3)])
  have f: "to_float32 (0.2 + ?f * 0.2) = Finite (0.2 + ?f * 0.2)"
    by (rule to_float32_small [OF fs(4)])
  have g: "to_float32 (0.2 + ?f * 0.2 + ?j2) = Finite (0.2 + ?f * 0.2 + ?j2)"
    by (rule to_float32_small [OF fs(5) [OF j2]])
  have r: "to_float32 (1.0 + ?j1) = Finite (1.0 + ?j1)"
    by (rule to_float32_small [OF jitter_small(1) [OF j1]])
  have h: "to_float32 (?j3 * 0.1) = Finite (?j3 * 0.1)"
    by (rule to_float32_small [OF jitter_small(2) [OF j3]])
  have i: "to_float32 (0.1 + ?j3 * 0.1) = Finite (0.1 + ?j3 * 0.1)"
    by (rule to_float32_small [OF jitter_small(3) [OF j3]])
  have "computed_flame_color w =
     fvec3 (Finite (min 1 (max 0 (1.0 + ?j1))))
           (Finite (min 1 (max 0 (0.2 + ?f * 0.2 + ?j2))))
           (Finite (min 1 (max 0 (0.1 + ?j3 * 0.1))))"
    unfolding computed_flame_color_def Let_def
    by (simp only: a b c d e f g h i r float_mult.simps float_add.simps float_sin.simps
          glm_clamp32_unit)
  then show ?thesis by simp
qed




lemma computed_flame_color_scene0:
  "computed_flame_color scene0 = fvec3 (Finite 1) (Finite 0.31) (Finite 0.1)"
proof -
  have t: "\<bar>glfwGetTime scene0\<bar> * 3 \<le> FLT_MAX"
    by (simp add: scene0_def SceneManager_def fresh_context_def FLT_MAX_def)
  have j: "\<bar>generator scene0 (generator_calls scene0)\<bar> \<le> 0.03"
    "\<bar>generator scene0 (generator_calls scene0 + 1)\<bar> \<le> 0.03"
    "\<bar>generator scene0 (generator_calls scene0 + 2)\<bar> \<le> 0.03"
    by (simp_all add: scene0_def SceneManager_def fresh_context_def)
  show ?thesis
    unfolding computed_flame_color_finite [OF t j]
    by (simp add: scene0_def SceneManager_def fresh_context_def)
qed




section \<open>Object renderers: properties\<close>

lemma FindTextureSlot_loop_total:
  "n \<le> int (length a) \<Longrightarrow> 0 \<le> fst (snd st) \<Longrightarrow> FindTextureSlot_loop a n tg st \<noteq> None"
proof (induction a n tg st rule: FindTextureSlot_loop.induct)
  case (1 a n tg r index bFound)
  show ?case using 1 by (subst FindTextureSlot_loop.simps) auto
qed

lemma FindTextureSlot_total: "registry_ok w \<Longrightarrow> FindTextureSlot tg w \<noteq> None"
  unfolding FindTextureSlot_def registry_ok_def by (rule FindTextureSlot_loop_total) auto

lemma slot_trace [simp]: "slot tg (w\<lparr>trace := t\<rparr>) = slot tg w"
  by (simp add: slot_def FindTextureSlot_def)

lemma material_events_trace [simp]: "material_events tg (w\<lparr>trace := t\<rparr>) = material_events tg w"
  by (simp add: material_events_def FindMaterial_def)

lemma registry_ok_trace [simp]: "registry_ok (w\<lparr>trace := t\<rparr>) = registry_ok w"
  by (simp add: registry_ok_def)

lemma drawn_material [simp]: "drawn (material_events tg w) = []"
  by (simp add: material_events_def Let_def split: prod.splits)

lemma after_material [simp]: "after s (material_events tg w) = s"
  by (simp add: material_events_def Let_def split: prod.splits)

lemma draws_material [simp]: "draws s (material_events tg w) = []"
  by (simp add: material_events_def Let_def split: prod.splits)

text \<open>With a shader manager, what each statement adds to the trace.\<close>

lemma SetTransformations_eq:
  "m_pShaderManager w \<noteq> NULL \<Longrightarrow> SetTransformations sc xr yr zr p w =
     w\<lparr>trace := trace w @ [setMat4Value g_ModelName (modelView sc xr yr zr p)]\<rparr>"
  by (simp add: SetTransformations_def call_def)

lemma SetShaderColor_eq:
  "m_pShaderManager w \<noteq> NULL \<Longrightarrow> SetShaderColor r g b a w =
     w\<lparr>trace := trace w @ [setIntValue g_UseTextureName 0, setVec4Value g_ColorValueName (vec4 r g b a)]\<rparr>"
  by (simp add: SetShaderColor_def call_def)

lemma SetTextureUVScale_eq:
  "m_pShaderManager w \<noteq> NULL \<Longrightarrow> SetTextureUVScale u v w =
     w\<lparr>trace := trace w @ [setVec2Value ''UVscale'' (vec2 u v)]\<rparr>"
  by (simp add: SetTextureUVScale_def call_def)

lemma SetShaderTexture_eq:
  "m_pShaderManager w \<noteq> NULL \<Longrightarrow> registry_ok w \<Longrightarrow> SetShaderTexture tg w =
     Some (w\<lparr>trace := trace w @ [setIntValue g_UseTextureName 1,
                                 setSampler2DValue g_TextureValueName (slot tg w)]\<rparr>)"
  using FindTextureSlot_total[of w tg]
  by (auto simp: SetShaderTexture_def call_def slot_def FindTextureSlot_def split: option.splits)

lemma SetShaderMaterial_eq:
  "m_pShaderManager w \<noteq> NULL \<Longrightarrow> SetShaderMaterial tg w =
     Some (w\<lparr>trace := trace w @ material_events tg w\<rparr>)"
  by (auto simp: SetShaderMaterial_def material_events_def call_def Let_def split: prod.splits)

lemmas stmt_eqs = SetTransformations_eq SetShaderColor_eq SetTextureUVScale_eq SetShaderTexture_eq
  SetShaderMaterial_eq does_def call_def DrawBoxMesh_def DrawBoxMeshSide_def DrawPlaneMesh_def
  DrawCylinderMesh_def DrawConeMesh_def DrawPyramid4Mesh_def DrawTaperedCylinderMesh_def
  DrawTorusMesh_def DrawHalfSphereMesh_def

lemmas state_defs = transparent_def g_UseTextureName_def g_ColorValueName_def

text \<open>The alpha of the flame is below 1 at every time.\<close>

lemma flame_alpha: "glm_clamp x 0.5 0.8 < 1"
  by (simp add: glm_clamp_def)

lemma RenderTable_run:
  assumes "m_pShaderManager w \<noteq> NULL" "registry_ok w"
  shows "RenderTable w = Some (w\<lparr>trace := trace w @ segment RenderTable w\<rparr>)
    \<and> drawn (segment RenderTable w) = [BoxMesh, BoxMesh]"
  using assms by (simp add: segment_def RenderTable_def stmt_eqs)

lemma RenderBackdrop_run:
  assumes "m_pShaderManager w \<noteq> NULL" "registry_ok w"
  shows "RenderBackdrop w = Some (w\<lparr>trace := trace w @ segment RenderBackdrop w\<rparr>)
    \<and> drawn (segment RenderBackdrop w) = [PlaneMesh]"
  using assms by (simp add: segment_def RenderBackdrop_def stmt_eqs)

lemma RenderPotionBottle_run:
  assumes "m_pShaderManager w \<noteq> NULL" "registry_ok w"
  shows "RenderPotionBottle w = Some (w\<lparr>trace := trace w @ segment RenderPotionBottle w\<rparr>)
    \<and> drawn (segment RenderPotionBottle w) =
        [BoxMesh, BoxMeshSide BoxSide_front, BoxMeshSide BoxSide_back, BoxMeshSide BoxSide_left,
         BoxMeshSide BoxSide_right, BoxMeshSide BoxSide_bottom, Pyramid4Mesh, CylinderMesh,
         TorusMesh, TaperedCylinderMesh]
    \<and> blending (draws s (segment RenderPotionBottle w)) =
        [(BoxMesh, True, True), (BoxMeshSide BoxSide_front, True, True),
         (BoxMeshSide BoxSide_back, True, True), (BoxMeshSide BoxSide_left, True, True),
         (BoxMeshSide BoxSide_right, True, True), (BoxMeshSide BoxSide_bottom, True, True),
         (Pyramid4Mesh, True, True), (CylinderMesh, True, True), (TorusMesh, True, True),
         (TaperedCylinderMesh, True, False)]
    \<and> opaque_blended (draws s (segment RenderPotionBottle w)) = [TaperedCylinderMesh]"
  using assms by (simp add: segment_def RenderPotionBottle_def stmt_eqs Let_def state_defs)

lemma RenderCandle_run:
  assumes "m_pShaderManager w \<noteq> NULL" "registry_ok w"
  shows "RenderCandle w = Some (w\<lparr>trace := trace w @ segment RenderCandle w\<rparr>)
    \<and> drawn (segment RenderCandle w) =
        [TorusMesh, TaperedCylinderMesh, CylinderMesh, TaperedCylinderMesh, TaperedCylinderMesh,
         TorusMesh, CylinderMesh, ConeMesh, ConeMesh]
    \<and> blending (draws s (segment RenderCandle w)) =
        [(TorusMesh, blend s, False), (TaperedCylinderMesh, blend s, False),
         (CylinderMesh, blend s, False), (TaperedCylinderMesh, blend s, False),
         (TaperedCylinderMesh, blend s, False), (TorusMesh, blend s, False),
         (CylinderMesh, blend s, False), (ConeMesh, blend s, False), (ConeMesh, True, True)]
    \<and> (\<not> blend s \<longrightarrow> opaque_blended (draws s (segment RenderCandle w)) = [])"
  using assms flame_alpha[of "sin (glfwGetTime w * 2.5) * 0.2 + 0.6"]
  by (simp add: segment_def RenderCandle_def stmt_eqs Let_def state_defs)

lemma RenderBottomBook_run:
  assumes "m_pShaderManager w \<noteq> NULL" "registry_ok w"
  shows "RenderBottomBook w = Some (w\<lparr>trace := trace w @ segment RenderBottomBook w\<rparr>)
    \<and> drawn (segment RenderBottomBook w) =
        [BoxMeshSide BoxSide_front, BoxMeshSide BoxSide_back, BoxMeshSide BoxSide_left,
         BoxMeshSide BoxSide_right, BoxMesh, BoxMesh, BoxMesh]"
  using assms by (simp add: segment_def RenderBottomBook_def stmt_eqs)

lemma RenderTopBook_run:
  assumes "m_pShaderManager w \<noteq> NULL" "registry_ok w"
  shows "RenderTopBook w = Some (w\<lparr>trace := trace w @ segment RenderTopBook w\<rparr>)
    \<and> drawn (segment RenderTopBook w) =
        [BoxMeshSide BoxSide_front, BoxMeshSide BoxSide_back, BoxMeshSide BoxSide_left,
         BoxMeshSide BoxSide_right, BoxMesh, BoxMesh, BoxMesh]"
  using assms by (simp add: segment_def RenderTopBook_def stmt_eqs)

lemma RenderCauldron_run:
  assumes "m_pShaderManager w \<noteq> NULL" "registry_ok w"
  shows "RenderCauldron w = Some (w\<lparr>trace := trace w @ segment RenderCauldron w\<rparr>)
    \<and> drawn (segment RenderCauldron w) =
        [HalfSphereMesh, TorusMesh, TaperedCylinderMesh, TaperedCylinderMesh, TaperedCylinderMesh,
         CylinderMesh]
    \<and> blending (draws s (segment RenderCauldron w)) =
        [(HalfSphereMesh, blend s, False), (TorusMesh, blend s, False),
         (TaperedCylinderMesh, blend s, False), (TaperedCylinderMesh, blend s, False),
         (TaperedCylinderMesh, blend s, False), (CylinderMesh, True, True)]
    \<and> (\<not> blend s \<longrightarrow> opaque_blended (draws s (segment RenderCauldron w)) = [])"
  using assms by (simp add: segment_def RenderCauldron_def stmt_eqs Let_def state_defs)









text \<open>
  C7. RenderScene returns exactly when the seven renderers, run once each in the order
  table, backdrop, potion bottle, candle, bottom book, top book, cauldron, each on the
  state the one before it left, all return, and its result is the result of the last.
  With a shader manager and a well-formed registry it returns, and the meshes it draws
  are those of the seven objects in that order.
\<close>

theorem RenderScene_order:
  "(RenderScene w = Some w' \<longleftrightarrow>
      (\<exists>w1 w2 w3 w4 w5 w6. RenderTable w = Some w1 \<and> RenderBackdrop w1 = Some w2
         \<and> RenderPotionBottle w2 = Some w3 \<and> RenderCandle w3 = Some w4
         \<and> RenderBottomBook w4 = Some w5 \<and> RenderTopBook w5 = Some w6
         \<and> RenderCauldron w6 = Some w'))
   \<and> (m_pShaderManager w \<noteq> NULL \<and> registry_ok w \<longrightarrow>
        RenderScene w \<noteq> None
      \<and> drawn (segment RenderScene w) =
          [BoxMesh, BoxMesh]
          @ [PlaneMesh]
          @ [BoxMesh, BoxMeshSide BoxSide_front, BoxMeshSide BoxSide_back, BoxMeshSide BoxSide_left,
             BoxMeshSide BoxSide_right, BoxMeshSide BoxSide_bottom, Pyramid4Mesh, CylinderMesh,
             TorusMesh, TaperedCylinderMesh]
          @ [TorusMesh, TaperedCylinderMesh, CylinderMesh, TaperedCylinderMesh, TaperedCylinderMesh,
             TorusMesh, CylinderMesh, ConeMesh, ConeMesh]
          @ [BoxMeshSide BoxSide_front, BoxMeshSide BoxSide_back, BoxMeshSide BoxSide_left,
             BoxMeshSide BoxSide_right, BoxMesh, BoxMesh, BoxMesh]
          @ [BoxMeshSide BoxSide_front, BoxMeshSide BoxSide_back, BoxMeshSide BoxSide_left,
             BoxMeshSide BoxSide_right, BoxMesh, BoxMesh, BoxMesh]
          @ [HalfSphereMesh, TorusMesh, TaperedCylinderMesh, TaperedCylinderMesh,
             TaperedCylinderMesh, CylinderMesh])"
proof (intro conjI impI)
  show "RenderScene w = Some w' \<longleftrightarrow>
      (\<exists>w1 w2 w3 w4 w5 w6. RenderTable w = Some w1 \<and> RenderBackdrop w1 = Some w2
         \<and> RenderPotionBottle w2 = Some w3 \<and> RenderCandle w3 = Some w4
         \<and> RenderBottomBook w4 = Some w5 \<and> RenderTopBook w5 = Some w6
         \<and> RenderCauldron w6 = Some w')"
    by (auto simp: RenderScene_def split: option.splits)
next
  assume h: "m_pShaderManager w \<noteq> NULL \<and> registry_ok w"
  define w1 where "w1 = w\<lparr>trace := trace w @ segment RenderTable w\<rparr>"
  define w2 where "w2 = w1\<lparr>trace := trace w1 @ segment RenderBackdrop w1\<rparr>"
  define w3 where "w3 = w2\<lparr>trace := trace w2 @ segment RenderPotionBottle w2\<rparr>"
  define w4 where "w4 = w3\<lparr>trace := trace w3 @ segment RenderCandle w3\<rparr>"
  define w5 where "w5 = w4\<lparr>trace := trace w4 @ segment RenderBottomBook w4\<rparr>"
  define w6 where "w6 = w5\<lparr>trace := trace w5 @ segment RenderTopBook w5\<rparr>"
  define w7 where "w7 = w6\<lparr>trace := trace w6 @ segment RenderCauldron w6\<rparr>"
  from h have h0: "m_pShaderManager w \<noteq> NULL" "registry_ok w" by simp_all
  then have h1: "m_pShaderManager w1 \<noteq> NULL" "registry_ok w1" by (simp_all add: w1_def)
  then have h2: "m_pShaderManager w2 \<noteq> NULL" "registry_ok w2" by (simp_all add: w2_def)
  then have h3: "m_pShaderManager w3 \<noteq> NULL" "registry_ok w3" by (simp_all add: w3_def)
  then have h4: "m_pShaderManager w4 \<noteq> NULL" "registry_ok w4" by (simp_all add: w4_def)
  then have h5: "m_pShaderManager w5 \<noteq> NULL" "registry_ok w5" by (simp_all add: w5_def)
  then have h6: "m_pShaderManager w6 \<noteq> NULL" "registry_ok w6" by (simp_all add: w6_def)
  note r1 = RenderTable_run [OF h0, folded w1_def]
  note r2 = RenderBackdrop_run [OF h1, folded w2_def]
  note r3 = RenderPotionBottle_run [OF h2, folded w3_def]
  note r4 = RenderCandle_run [OF h3, folded w4_def]
  note r5 = RenderBottomBook_run [OF h4, folded w5_def]
  note r6 = RenderTopBook_run [OF h5, folded w6_def]
  note r7 = RenderCauldron_run [OF h6, folded w7_def]
  have run: "RenderScene w = Some w7"
    using r1 r2 r3 r4 r5 r6 r7 by (simp add: RenderScene_def)
  then show "RenderScene w \<noteq> None" by simp
  have "trace w7 = trace w @ segment RenderTable w @ segment RenderBackdrop w1
      @ segment RenderPotionBottle w2 @ segment RenderCandle w3 @ segment RenderBottomBook w4
      @ segment RenderTopBook w5 @ segment RenderCauldron w6"
    by (simp add: w7_def w6_def w5_def w4_def w3_def w2_def w1_def)
  with run have "segment RenderScene w = segment RenderTable w @ segment RenderBackdrop w1
      @ segment RenderPotionBottle w2 @ segment RenderCandle w3 @ segment RenderBottomBook w4
      @ segment RenderTopBook w5 @ segment RenderCauldron w6"
    by (simp add: segment_def [of RenderScene])
  with r1 r2 r3 r4 r5 r6 r7
  show "drawn (segment RenderScene w) =
          [BoxMesh, BoxMesh]
          @ [PlaneMesh]
          @ [BoxMesh, BoxMeshSide BoxSide_front, BoxMeshSide BoxSide_back, BoxMeshSide BoxSide_left,
             BoxMeshSide BoxSide_right, BoxMeshSide BoxSide_bottom, Pyramid4Mesh, CylinderMesh,
             TorusMesh, TaperedCylinderMesh]
          @ [TorusMesh, TaperedCylinderMesh, CylinderMesh, TaperedCylinderMesh, TaperedCylinderMesh,
             TorusMesh, CylinderMesh, ConeMesh, ConeMesh]
          @ [BoxMeshSide BoxSide_front, BoxMeshSide BoxSide_back, BoxMeshSide BoxSide_left,
             BoxMeshSide BoxSide_right, BoxMesh, BoxMesh, BoxMesh]
          @ [BoxMeshSide BoxSide_front, BoxMeshSide BoxSide_back, BoxMeshSide BoxSide_left,
             BoxMeshSide BoxSide_right, BoxMesh, BoxMesh, BoxMesh]
          @ [HalfSphereMesh, TorusMesh, TaperedCylinderMesh, TaperedCylinderMesh,
             TaperedCylinderMesh, CylinderMesh]"
    by simp
qed

theorem RenderScene_order_witness:
  "m_pShaderManager scene0 \<noteq> NULL \<and> registry_ok scene0
   \<and> RenderScene scene0 \<noteq> None
   \<and> drawn (segment RenderScene scene0) =
          [BoxMesh, BoxMesh]
          @ [PlaneMesh]
          @ [BoxMesh, BoxMeshSide BoxSide_front, BoxMeshSide BoxSide_back, BoxMeshSide BoxSide_left,
             BoxMeshSide BoxSide_right, BoxMeshSide BoxSide_bottom, Pyramid4Mesh, CylinderMesh,
             TorusMesh, TaperedCylinderMesh]
          @ [TorusMesh, TaperedCylinderMesh, CylinderMesh, TaperedCylinderMesh, TaperedCylinderMesh,
             TorusMesh, CylinderMesh, ConeMesh, ConeMesh]
          @ [BoxMeshSide BoxSide_front, BoxMeshSide BoxSide_back, BoxMeshSide BoxSide_left,
             BoxMeshSide BoxSide_right, BoxMesh, BoxMesh, BoxMesh]
          @ [BoxMeshSide BoxSide_front, BoxMeshSide BoxSide_back, BoxMeshSide BoxSide_left,
             BoxMeshSide BoxSide_right, BoxMesh, BoxMesh, BoxMesh]
          @ [HalfSphereMesh, TorusMesh, TaperedCylinderMesh, TaperedCylinderMesh,
             TaperedCylinderMesh, CylinderMesh]"
  using RenderScene_order [of scene0 scene0] scene0_shader_manager scene0_registry_ok
  by blast

end
